theory Spec2Isabelle
  imports Complex_Main "HOL-Library.Word" "HOL-Library.Sublist" "HOL-Library.AList"
begin

unbundle bit_operations_syntax

section \<open>JavaScript strings\<close>

text \<open>
  A JavaScript string is a sequence of UTF-16 code units. String literals of the source
  are ASCII; \<open>js\<close> embeds such a literal code unit by code unit.
\<close>

type_synonym char16 = "16 word"
type_synonym jsstring = "char16 list"

definition js :: "string \<Rightarrow> jsstring" where
  "js s = map of_char s"

text \<open>
  \<open>String.prototype.trim\<close> strips the ECMAScript WhiteSpace and LineTerminator code
  points from both ends: TAB, LF, VT, FF, CR, SP, NBSP, the Unicode space separators,
  LS, PS and the byte order mark.
\<close>

definition isWhiteSpace :: "char16 \<Rightarrow> bool" where
  "isWhiteSpace c =
     (c \<in> {0x9, 0xA, 0xB, 0xC, 0xD, 0x20, 0xA0, 0x1680, 0x2028, 0x2029, 0x202F, 0x205F,
            0x3000, 0xFEFF}
      \<or> (0x2000 \<le> c \<and> c \<le> 0x200A))"

definition trim :: "jsstring \<Rightarrow> jsstring" where
  "trim s = rev (dropWhile isWhiteSpace (rev (dropWhile isWhiteSpace s)))"

text \<open>\<open>s.includes(search)\<close>: \<open>search\<close> occurs in \<open>s\<close> as a contiguous run.\<close>

definition includes_str :: "jsstring \<Rightarrow> jsstring \<Rightarrow> bool" where
  "includes_str s search = sublist search s"

text \<open>Truthiness of a string and of a \<open>string | null\<close>: the empty string is falsy.\<close>

definition truthy :: "jsstring \<Rightarrow> bool" where
  "truthy s = (s \<noteq> [])"

definition truthy_opt :: "jsstring option \<Rightarrow> bool" where
  "truthy_opt v = (case v of None \<Rightarrow> False | Some s \<Rightarrow> truthy s)"

section \<open>Status colouring\<close>

text \<open>
  \<open>getStatusColor\<close> (lines 139-144). The status of a transport response is an integer;
  the result is the CSS class of the badge.
\<close>

definition getStatusColor :: "int \<Rightarrow> jsstring" where
  "getStatusColor status =
     (if status \<ge> 200 \<and> status < 300 then js ''bg-green-500''
      else if status \<ge> 300 \<and> status < 400 then js ''bg-blue-500''
      else if status \<ge> 400 \<and> status < 500 then js ''bg-yellow-500''
      else js ''bg-red-500'')"

section \<open>JSON values and \<open>JSON.stringify\<close>\<close>

text \<open>
  The values held in \<open>response.data\<close> (typed \<open>any\<close>) are what \<open>res.json()\<close> or
  \<open>res.text()\<close> deliver: a JSON value, a JavaScript string being \<open>JString\<close>. An object
  is the list of its properties in enumeration order. The number type is a parameter
  \<open>'n\<close>: how a number prints is the platform's \<open>Number::toString\<close>.
\<close>

datatype 'n json =
    JNull
  | JBool bool
  | JNumber 'n
  | JString jsstring
  | JArray "'n json list"
  | JObject "(jsstring \<times> 'n json) list"

text \<open>
  \<open>QuoteJSONString\<close> of ECMAScript: the two-character escapes of backspace, tab, line
  feed, form feed, carriage return, the double quote and the backslash; \<open>\uXXXX\<close>
  (lower-case hexadecimal) for the other control characters and for a surrogate that has
  no partner; every other code unit as it is.
\<close>

definition hexDigit :: "char16 \<Rightarrow> char16" where
  "hexDigit d = (if d < 10 then 0x30 + d else 0x57 + d)"

definition UnicodeEscape :: "char16 \<Rightarrow> jsstring" where
  "UnicodeEscape c =
     [0x5C, 0x75, hexDigit (drop_bit 12 c AND 0xF), hexDigit (drop_bit 8 c AND 0xF),
      hexDigit (drop_bit 4 c AND 0xF), hexDigit (c AND 0xF)]"

definition isLeadingSurrogate :: "char16 \<Rightarrow> bool" where
  "isLeadingSurrogate c = (0xD800 \<le> c \<and> c \<le> 0xDBFF)"

definition isTrailingSurrogate :: "char16 \<Rightarrow> bool" where
  "isTrailingSurrogate c = (0xDC00 \<le> c \<and> c \<le> 0xDFFF)"

definition quoteUnit :: "char16 \<Rightarrow> jsstring" where
  "quoteUnit c =
     (if c = 0x8 then [0x5C, 0x62]
      else if c = 0x9 then [0x5C, 0x74]
      else if c = 0xA then [0x5C, 0x6E]
      else if c = 0xC then [0x5C, 0x66]
      else if c = 0xD then [0x5C, 0x72]
      else if c = 0x22 then [0x5C, 0x22]
      else if c = 0x5C then [0x5C, 0x5C]
      else if c < 0x20 \<or> isLeadingSurrogate c \<or> isTrailingSurrogate c then UnicodeEscape c
      else [c])"

fun quoteUnits :: "jsstring \<Rightarrow> jsstring" where
  "quoteUnits [] = []"
| "quoteUnits [c] = quoteUnit c"
| "quoteUnits (c # d # cs) =
     (if isLeadingSurrogate c \<and> isTrailingSurrogate d then c # d # quoteUnits cs
      else quoteUnit c @ quoteUnits (d # cs))"

definition QuoteJSONString :: "jsstring \<Rightarrow> jsstring" where
  "QuoteJSONString s = [0x22] @ quoteUnits s @ [0x22]"

fun join :: "jsstring \<Rightarrow> jsstring list \<Rightarrow> jsstring" where
  "join sep [] = []"
| "join sep [x] = x"
| "join sep (x # y # ys) = x @ sep @ join sep (y # ys)"

text \<open>
  \<open>JSON.stringify(obj, null, 2)\<close>: no replacer, the gap is two spaces.
  \<open>SerializeJSONProperty\<close> carries the current indentation; an empty array or object
  prints without line breaks.
\<close>

definition gap :: jsstring where
  "gap = js ''  ''"

fun SerializeJSONProperty :: "('n \<Rightarrow> jsstring) \<Rightarrow> jsstring \<Rightarrow> 'n json \<Rightarrow> jsstring" where
  "SerializeJSONProperty num indent JNull = js ''null''"
| "SerializeJSONProperty num indent (JBool b) = (if b then js ''true'' else js ''false'')"
| "SerializeJSONProperty num indent (JNumber n) = num n"
| "SerializeJSONProperty num indent (JString s) = QuoteJSONString s"
| "SerializeJSONProperty num indent (JArray vs) =
     (if vs = [] then js ''[]''
      else js ''['' @ [0xA] @ (indent @ gap)
           @ join (js '','' @ [0xA] @ (indent @ gap))
                (map (SerializeJSONProperty num (indent @ gap)) vs)
           @ [0xA] @ indent @ js '']'')"
| "SerializeJSONProperty num indent (JObject kvs) =
     (if kvs = [] then js ''{}''
      else js ''{'' @ [0xA] @ (indent @ gap)
           @ join (js '','' @ [0xA] @ (indent @ gap))
                (map (\<lambda>(k, v). QuoteJSONString k @ js '': ''
                        @ SerializeJSONProperty num (indent @ gap) v) kvs)
           @ [0xA] @ indent @ js ''}'')"


text \<open>The decimal digits of an integer.\<close>

fun digitsOf :: "nat \<Rightarrow> jsstring" where
  "digitsOf n =
     (if n < 10 then [0x30 + of_nat n]
      else digitsOf (n div 10) @ [0x30 + of_nat (n mod 10)])"

declare digitsOf.simps [simp del]

definition intToString :: "int \<Rightarrow> jsstring" where
  "intToString i = (if i < 0 then 0x2D # digitsOf (nat (- i)) else digitsOf (nat i))"

section \<open>The platform\<close>

text \<open>
  A thrown value is an \<open>Error\<close> instance carrying its message, or any other value
  (line 111 tests \<open>err instanceof Error\<close>).
\<close>

datatype thrown = ErrorInstance jsstring | OtherValue

text \<open>
  What the component takes from its environment: \<open>JSON.parse\<close>, the printing of
  numbers, the printing of an integer of magnitude \<open>2 ^ 53\<close> or more (the shortest
  digits that identify the double, in exponent notation from \<open>10 ^ 21\<close>), and the
  \<open>TypeError\<close> a body method of a \<open>Response\<close> rejects with when the body has been
  read before (its message differs between browsers).
\<close>

record 'n platform =
  JSON_parse :: "jsstring \<Rightarrow> thrown + 'n json"
  Number_toString :: "'n \<Rightarrow> jsstring"
  largeIntegerToString :: "int \<Rightarrow> jsstring"
  bodyUsedError :: thrown

text \<open>
  How a template literal prints \<open>timing\<close>, an integer: its decimal digits when its
  magnitude is below \<open>2 ^ 53\<close>.
\<close>

definition timingToString :: "'n platform \<Rightarrow> int \<Rightarrow> jsstring" where
  "timingToString P t = (if \<bar>t\<bar> < 2 ^ 53 then intToString t else largeIntegerToString P t)"

text \<open>
  The transport's \<open>Response\<close>. \<open>res_headers\<close> are the (name, value) pairs its
  \<open>Headers\<close> object iterates, names in lower case. The body is absent (a null body) or
  a stream whose reading fails or delivers a text. In the Fetch Standard \<open>text()\<close> and
  \<open>json()\<close> both consume the body: each rejects with a \<open>TypeError\<close> when the body is
  not null and its stream has been read already, and \<open>json()\<close> reads the stream to its
  end before it parses. \<open>used\<close> is that state of the stream.
\<close>

datatype body = NullBody | Stream "thrown + jsstring"

record Response =
  res_status :: int
  res_statusText :: jsstring
  res_headers :: "(jsstring \<times> jsstring) list"
  res_body :: body

definition Headers_get :: "(jsstring \<times> jsstring) list \<Rightarrow> jsstring \<Rightarrow> jsstring option" where
  "Headers_get hs name = map_of hs name"

definition Response_text :: "'n platform \<Rightarrow> Response \<Rightarrow> bool \<Rightarrow> (thrown + jsstring) \<times> bool" where
  "Response_text P res used =
     (case res_body res of
        NullBody \<Rightarrow> (Inr [], used)
      | Stream content \<Rightarrow>
          if used then (Inl (bodyUsedError P), used) else (content, True))"

definition Response_json :: "'n platform \<Rightarrow> Response \<Rightarrow> bool \<Rightarrow> (thrown + 'n json) \<times> bool" where
  "Response_json P res used =
     (case res_body res of
        NullBody \<Rightarrow> (JSON_parse P [], used)
      | Stream content \<Rightarrow>
          if used then (Inl (bodyUsedError P), used)
          else (case content of
                  Inl e \<Rightarrow> (Inl e, True)
                | Inr t \<Rightarrow> (JSON_parse P t, True)))"

text \<open>
  Numbers are IEEE 754 doubles. A reading of \<open>performance.now()\<close> is modelled by the
  real value of a finite double that is not negative. The result of an arithmetic
  operation is the exact result rounded to the nearest double, a tie going to the even
  significand: \<open>ulp x\<close> is the spacing of the doubles around \<open>x\<close> (53 bits of
  significand, the exponent not below that of the subnormal numbers), and
  \<open>roundToDouble\<close> rounds to a multiple of it. Overflow to an infinity, which needs a
  result of magnitude \<open>2 ^ 1024\<close>, is not modelled: the difference of two doubles that
  are not negative lies between them in magnitude and does not overflow.
\<close>

definition roundTiesToEven :: "real \<Rightarrow> int" where
  "roundTiesToEven y =
     (let f = \<lfloor>y\<rfloor> in
      if y - of_int f < 1 / 2 then f
      else if 1 / 2 < y - of_int f then f + 1
      else if even f then f else f + 1)"

definition ulp :: "real \<Rightarrow> real" where
  "ulp x = power_int 2 (max \<lfloor>log 2 \<bar>x\<bar>\<rfloor> (- 1022) - 52)"

definition roundToDouble :: "real \<Rightarrow> real" where
  "roundToDouble x = (if x = 0 then 0 else of_int (roundTiesToEven (x / ulp x)) * ulp x)"

definition isDouble :: "real \<Rightarrow> bool" where
  "isDouble x = (roundToDouble x = x \<and> \<bar>x\<bar> < 2 ^ 1024)"

text \<open>The subtraction \<open>a - b\<close> of two doubles.\<close>

definition Number_minus :: "real \<Rightarrow> real \<Rightarrow> real" where
  "Number_minus a b = roundToDouble (a - b)"

text \<open>\<open>Math.round\<close>: the nearest integer, a tie going up; it is exact on a double.\<close>

definition Math_round :: "real \<Rightarrow> int" where
  "Math_round x = \<lfloor>x + 1 / 2\<rfloor>"

section \<open>The component\<close>

text \<open>
  An object whose values are strings, as the list of its properties in enumeration
  order: first the names that are array indices (the canonical decimal numerals below
  \<open>2 ^ 32 - 1\<close>) in ascending order, then the other names in the order of their
  creation. \<open>setProperty\<close> is the assignment \<open>obj[key] = value\<close> on an object that
  began as \<open>{}\<close>: the name \<open>__proto__\<close> reaches the setter of \<open>Object.prototype\<close>,
  which ignores a string; an existing property keeps its place.
\<close>

definition isDigit :: "char16 \<Rightarrow> bool" where
  "isDigit c = (0x30 \<le> c \<and> c \<le> 0x39)"

definition digitsValue :: "jsstring \<Rightarrow> nat" where
  "digitsValue s = foldl (\<lambda>n c. 10 * n + unat (c - 0x30)) 0 s"

definition isArrayIndex :: "jsstring \<Rightarrow> bool" where
  "isArrayIndex s =
     (case s of
        [] \<Rightarrow> False
      | c # cs \<Rightarrow> list_all isDigit s \<and> (c \<noteq> 0x30 \<or> cs = []) \<and> digitsValue s < 2 ^ 32 - 1)"

fun insertIndex :: "jsstring \<Rightarrow> jsstring \<Rightarrow> (jsstring \<times> jsstring) list \<Rightarrow> (jsstring \<times> jsstring) list" where
  "insertIndex k v [] = [(k, v)]"
| "insertIndex k v ((k', v') # ps) =
     (if isArrayIndex k' \<and> digitsValue k' < digitsValue k then (k', v') # insertIndex k v ps
      else (k, v) # (k', v') # ps)"

definition setProperty ::
  "jsstring \<Rightarrow> jsstring \<Rightarrow> (jsstring \<times> jsstring) list \<Rightarrow> (jsstring \<times> jsstring) list" where
  "setProperty k v obj =
     (if k = js ''__proto__'' then obj
      else if map_of obj k \<noteq> None then AList.update k v obj
      else if isArrayIndex k then insertIndex k v obj
      else obj @ [(k, v)])"

text \<open>
  The \<open>ApiResponse\<close> interface (lines 14-20); its \<open>headers\<close> are written
  \<open>responseHeaders\<close>, after the variable of line 89 that fills them.
\<close>

record 'n ApiResponse =
  data :: "'n json"
  status :: int
  statusText :: jsstring
  responseHeaders :: "(jsstring \<times> jsstring) list"
  timing :: int

text \<open>The eight \<open>useState\<close> cells (lines 23-30), \<open>method\<close> written \<open>httpMethod\<close>.\<close>

record 'n component =
  url :: jsstring
  httpMethod :: jsstring
  requestBody :: jsstring
  headers :: jsstring
  loading :: bool
  response :: "'n ApiResponse option"
  error :: "jsstring option"
  useCorsProxy :: bool

definition initial :: "'n component" where
  "initial =
     \<lparr>url = [], httpMethod = js ''GET'', requestBody = [],
      headers = js ''{'' @ [0x22] @ js ''Content-Type'' @ [0x22] @ js '': '' @ [0x22]
                @ js ''application/json'' @ [0x22] @ js ''}'',
      loading = False, response = None, error = None, useCorsProxy = False\<rparr>"

text \<open>
  The \<open>RequestInit\<close> handed to \<open>fetch\<close> (lines 59-67), its keys \<open>method\<close>,
  \<open>headers\<close>, \<open>mode\<close> and \<open>body\<close> written with the prefix \<open>init\<close>. An absent
  \<open>body\<close> is \<open>None\<close>.
\<close>

record 'n RequestInit =
  init_method :: jsstring
  init_headers :: "'n json"
  init_mode :: jsstring
  init_body :: "jsstring option"

record toast =
  title :: jsstring
  description :: jsstring
  variant :: "jsstring option"

text \<open>
  The effects of \<open>makeRequest\<close> on its environment, in program order: notifications,
  readings of \<open>performance.now()\<close> with the value read, console output, the call of
  \<open>fetch\<close>, and the calls of the body methods of the response.
\<close>

datatype 'n logged = LoggedString jsstring | LoggedInit "'n RequestInit" | LoggedThrown thrown

datatype 'n effect =
    Toast toast
  | PerformanceNow real
  | ConsoleLog jsstring "'n logged"
  | ConsoleError jsstring "'n logged"
  | Fetch jsstring "'n RequestInit"
  | ResJson
  | ResText

text \<open>The calls of the transport and the notifications in a list of effects.\<close>

fun fetchCalls :: "'n effect list \<Rightarrow> (jsstring \<times> 'n RequestInit) list" where
  "fetchCalls [] = []"
| "fetchCalls (Fetch u i # es) = (u, i) # fetchCalls es"
| "fetchCalls (e # es) = fetchCalls es"

fun toasts :: "'n effect list \<Rightarrow> toast list" where
  "toasts [] = []"
| "toasts (Toast t # es) = t # toasts es"
| "toasts (e # es) = toasts es"

text \<open>
  The effects between the first reading of the clock and the next one: what the two
  timestamps of a call bracket.
\<close>

fun isPerformanceNow :: "'n effect \<Rightarrow> bool" where
  "isPerformanceNow (PerformanceNow t) = True"
| "isPerformanceNow e = False"

definition bracketed :: "'n effect list \<Rightarrow> 'n effect list" where
  "bracketed effs =
     takeWhile (\<lambda>e. \<not> isPerformanceNow e) (tl (dropWhile (\<lambda>e. \<not> isPerformanceNow e) effs))"

text \<open>
  \<open>makeRequest\<close> is an async function: it runs without interruption up to an \<open>await\<close>
  and resumes when the awaited promise settles. \<open>makeRequest_begin\<close> is the part up to
  \<open>await fetch(...)\<close> (lines 33-72); it is given the reading of \<open>performance.now()\<close> of
  line 44. Its third result is the captured \<open>startTime\<close> when the function is suspended
  at the call of \<open>fetch\<close>, and \<open>None\<close> when it has returned.
\<close>

definition makeRequest_begin ::
  "'n platform \<Rightarrow> 'n component \<Rightarrow> real \<Rightarrow> 'n component \<times> 'n effect list \<times> real option" where
  "makeRequest_begin P c now =
     (if \<not> truthy (trim (url c)) then
        (c, [Toast \<lparr>title = js ''Error'', description = js ''Please enter a valid URL'',
                    variant = Some (js ''destructive'')\<rparr>], None)
      else
        let c' = c\<lparr>loading := True, error := None\<rparr>;
            startTime = now;
            parsedHeaders = (case JSON_parse P (headers c) of
                               Inr v \<Rightarrow> v
                             | Inl e \<Rightarrow> JObject []);
            requestUrl = (if useCorsProxy c
                          then js ''https://cors-anywhere.herokuapp.com/'' @ url c
                          else url c);
            requestOptions = \<lparr>init_method = httpMethod c, init_headers = parsedHeaders,
                              init_mode = (if useCorsProxy c then js ''cors'' else js ''cors''),
                              init_body = None\<rparr>;
            requestOptions' =
              (if httpMethod c \<noteq> js ''GET'' \<and> httpMethod c \<noteq> js ''HEAD''
                  \<and> truthy (trim (requestBody c))
               then requestOptions\<lparr>init_body := Some (requestBody c)\<rparr>
               else requestOptions)
        in (c',
            [PerformanceNow startTime,
             ConsoleLog (js ''Making request to:'') (LoggedString requestUrl),
             ConsoleLog (js ''Request options:'') (LoggedInit requestOptions'),
             Fetch requestUrl requestOptions'],
            Some startTime))"

text \<open>
  Lines 76-87: the body of the response, read as JSON or as text. The \<open>catch\<close> of line
  82 drops the error of \<open>res.json()\<close> and calls \<open>res.text()\<close> on the same response; an
  error of \<open>res.text()\<close> leaves the \<open>try\<close> block of line 46.
\<close>

definition readBody :: "'n platform \<Rightarrow> Response \<Rightarrow> (thrown + 'n json) \<times> 'n effect list" where
  "readBody P res =
     (let contentType = Headers_get (res_headers res) (js ''content-type'') in
      if (case contentType of
            None \<Rightarrow> False
          | Some ct \<Rightarrow> truthy ct \<and> includes_str ct (js ''application/json''))
      then (case Response_json P res False of
              (Inr v, used) \<Rightarrow> (Inr v, [ResJson])
            | (Inl e, used) \<Rightarrow>
                (case Response_text P res used of
                   (Inr t, used') \<Rightarrow> (Inr (JString t), [ResJson, ResText])
                 | (Inl e', used') \<Rightarrow> (Inl e', [ResJson, ResText])))
      else (case Response_text P res False of
              (Inr t, used) \<Rightarrow> (Inr (JString t), [ResText])
            | (Inl e, used) \<Rightarrow> (Inl e, [ResText])))"

text \<open>
  Lines 107-128: the \<open>catch\<close> block, followed by the \<open>finally\<close> block. The elapsed time
  is computed (line 109) and not used.
\<close>

definition makeRequest_catch ::
  "'n component \<Rightarrow> real \<Rightarrow> thrown \<Rightarrow> real \<Rightarrow> 'n component \<times> 'n effect list" where
  "makeRequest_catch c startTime err now =
     (let endTime = now;
          timing = Math_round (Number_minus endTime startTime);
          errorMessage = (case err of
                            ErrorInstance m \<Rightarrow> m
                          | OtherValue \<Rightarrow> js ''Unknown error occurred'');
          errorMessage' =
            (if includes_str errorMessage (js ''CORS'') \<or> includes_str errorMessage (js ''fetch'')
             then js ''CORS Error: '' @ errorMessage
                  @ js ''. Try enabling CORS proxy or configure the server to allow cross-origin requests.''
             else errorMessage)
      in (c\<lparr>error := Some errorMessage', loading := False\<rparr>,
          [PerformanceNow endTime,
           ConsoleError (js ''Request failed:'') (LoggedThrown err),
           Toast \<lparr>title = js ''Request Failed'', description = errorMessage',
                  variant = Some (js ''destructive'')\<rparr>]))"

text \<open>
  \<open>makeRequest_settle\<close> is the rest of the function, run when the promise of \<open>fetch\<close>
  has settled with \<open>outcome\<close> (rejected with a thrown value, or fulfilled with a
  response), on the state \<open>c\<close> the component has by then. \<open>now1\<close> is the clock at the
  first reading after the transport has settled, \<open>now2\<close> the clock at the reading of line
  108 when the \<open>catch\<close> block is entered after line 73 has run.
\<close>

definition makeRequest_settle ::
  "'n platform \<Rightarrow> 'n component \<Rightarrow> real \<Rightarrow> thrown + Response \<Rightarrow> real \<Rightarrow> real
     \<Rightarrow> 'n component \<times> 'n effect list" where
  "makeRequest_settle P c startTime outcome now1 now2 =
     (case outcome of
        Inl err \<Rightarrow> makeRequest_catch c startTime err now1
      | Inr res \<Rightarrow>
          let endTime = now1;
              timing = Math_round (Number_minus endTime startTime)
          in (case readBody P res of
                (Inl err, effs) \<Rightarrow>
                  (case makeRequest_catch c startTime err now2 of
                     (c', effs') \<Rightarrow> (c', PerformanceNow endTime # effs @ effs'))
              | (Inr responseData, effs) \<Rightarrow>
                  let responseHeaders =
                        fold (\<lambda>(key, value) acc. setProperty key value acc) (res_headers res) []
                  in (c\<lparr>response := Some \<lparr>data = responseData, status = res_status res,
                                           statusText = res_statusText res,
                                           responseHeaders = responseHeaders,
                                           timing = timing\<rparr>,
                        loading := False\<rparr>,
                      PerformanceNow endTime # effs
                      @ [Toast \<lparr>title = js ''Request Completed'',
                                description = js ''Response received in ''
                                              @ timingToString P timing @ js ''ms'',
                                variant = None\<rparr>])))"

text \<open>One call of \<open>makeRequest\<close> from the click to its end, with no other event between.\<close>

definition makeRequest ::
  "'n platform \<Rightarrow> 'n component \<Rightarrow> real \<Rightarrow> thrown + Response \<Rightarrow> real \<Rightarrow> real
     \<Rightarrow> 'n component \<times> 'n effect list" where
  "makeRequest P c now0 outcome now1 now2 =
     (case makeRequest_begin P c now0 of
        (c', effs, None) \<Rightarrow> (c', effs)
      | (c', effs, Some startTime) \<Rightarrow>
          (case makeRequest_settle P c' startTime outcome now1 now2 of
             (c'', effs') \<Rightarrow> (c'', effs @ effs')))"

text \<open>
  \<open>JSON.stringify\<close> throws on a cyclic structure and on a \<open>BigInt\<close> only, and a JSON
  value holds neither: on these values it always returns a string.
\<close>

definition JSON_stringify :: "('n \<Rightarrow> jsstring) \<Rightarrow> 'n json \<Rightarrow> thrown + jsstring" where
  "JSON_stringify num obj = Inr (SerializeJSONProperty num [] obj)"

text \<open>
  \<open>String(obj)\<close>: a string is itself, an array is its elements joined by commas with
  \<open>null\<close> as the empty string, and an object is \<open>[object Object]\<close>.
\<close>

fun String_of :: "('n \<Rightarrow> jsstring) \<Rightarrow> 'n json \<Rightarrow> jsstring" where
  "String_of num JNull = js ''null''"
| "String_of num (JBool b) = (if b then js ''true'' else js ''false'')"
| "String_of num (JNumber n) = num n"
| "String_of num (JString s) = s"
| "String_of num (JArray vs) =
     join (js '','') (map (\<lambda>v. case v of JNull \<Rightarrow> [] | _ \<Rightarrow> String_of num v) vs)"
| "String_of num (JObject kvs) = js ''[object Object]''"

text \<open>\<open>formatJson\<close> (lines 131-137), with its \<open>try\<close> and its \<open>catch\<close>.\<close>

definition formatJson :: "'n platform \<Rightarrow> 'n json \<Rightarrow> jsstring" where
  "formatJson P obj =
     (case JSON_stringify (Number_toString P) obj of
        Inr s \<Rightarrow> s
      | Inl e \<Rightarrow> String_of (Number_toString P) obj)"

text \<open>
  What the response card shows. The title (lines 275-294) has an icon, and the status
  and timing badges whenever a response is stored. The content (lines 298-356) is the
  list of its blocks: the progress indicator, the failure banner with or without the
  checklist of CORS solutions, the two tabs with the formatted body and headers, the
  placeholder.
\<close>

datatype icon = CheckCircle | XCircle | NoIcon

definition titleIcon :: "'n component \<Rightarrow> icon" where
  "titleIcon c =
     (if response c \<noteq> None then CheckCircle
      else if truthy_opt (error c) then XCircle
      else NoIcon)"

datatype block =
    Progress
  | FailureBanner jsstring bool
  | ResponseTabs jsstring jsstring
  | Placeholder

definition content :: "'n platform \<Rightarrow> 'n component \<Rightarrow> block list" where
  "content P c =
     (if loading c then [Progress] else [])
     @ (case error c of
          None \<Rightarrow> []
        | Some e \<Rightarrow> if truthy e then [FailureBanner e (includes_str e (js ''CORS''))] else [])
     @ (case response c of
          None \<Rightarrow> []
        | Some r \<Rightarrow>
            if \<not> loading c \<and> \<not> truthy_opt (error c)
            then [ResponseTabs (formatJson P (data r))
                    (formatJson P (JObject (map (\<lambda>(k, v). (k, JString v)) (responseHeaders r))))]
            else [])
     @ (if response c = None \<and> \<not> loading c \<and> \<not> truthy_opt (error c) then [Placeholder] else [])"

text \<open>
  The lifetime of the component: the user edits the five inputs, clicks the send
  button, and the transport settles a request in flight. The button is disabled while
  \<open>loading\<close> holds or the URL is blank (line 251), and a click on a disabled button
  does nothing. \<open>inflight\<close> is the \<open>startTime\<close> of the suspended call, if there is one.
\<close>

datatype action =
    SetUrl jsstring
  | SetMethod jsstring
  | SetRequestBody jsstring
  | SetHeaders jsstring
  | SetUseCorsProxy bool
  | Click real
  | Settle "thrown + Response" real real

record 'n app =
  current :: "'n component"
  inflight :: "real option"

definition start :: "'n app" where
  "start = \<lparr>current = initial, inflight = None\<rparr>"

fun step :: "'n platform \<Rightarrow> 'n app \<Rightarrow> action \<Rightarrow> 'n app" where
  "step P a (SetUrl v) = a\<lparr>current := (current a)\<lparr>url := v\<rparr>\<rparr>"
| "step P a (SetMethod v) = a\<lparr>current := (current a)\<lparr>httpMethod := v\<rparr>\<rparr>"
| "step P a (SetRequestBody v) = a\<lparr>current := (current a)\<lparr>requestBody := v\<rparr>\<rparr>"
| "step P a (SetHeaders v) = a\<lparr>current := (current a)\<lparr>headers := v\<rparr>\<rparr>"
| "step P a (SetUseCorsProxy v) = a\<lparr>current := (current a)\<lparr>useCorsProxy := v\<rparr>\<rparr>"
| "step P a (Click now) =
     (if loading (current a) \<or> \<not> truthy (trim (url (current a))) then a
      else (case makeRequest_begin P (current a) now of
              (c', effs, pending) \<Rightarrow> \<lparr>current = c', inflight = pending\<rparr>))"
| "step P a (Settle outcome now1 now2) =
     (case inflight a of
        None \<Rightarrow> a
      | Some startTime \<Rightarrow>
          \<lparr>current = fst (makeRequest_settle P (current a) startTime outcome now1 now2),
           inflight = None\<rparr>)"

definition run :: "'n platform \<Rightarrow> action list \<Rightarrow> 'n app" where
  "run P as = foldl (step P) start as"

text \<open>
  The stored flags agree with the call in flight: \<open>loading\<close> holds exactly while a call
  is suspended, and then no error is stored.
\<close>

definition consistent :: "'n app \<Rightarrow> bool" where
  "consistent a = ((loading (current a) = (inflight a \<noteq> None))
                   \<and> \<not> (loading (current a) \<and> error (current a) \<noteq> None))"

text \<open>
  A platform for the examples: its \<open>JSON.parse\<close> knows the five texts the examples
  parse and rejects the text \<open>not-json\<close> and every other one, numbers are integers
  (no example prints one of magnitude \<open>2 ^ 53\<close> or more),
  and the message of the \<open>TypeError\<close> is the one of Chromium.
\<close>

definition exampleParse :: "jsstring \<Rightarrow> thrown + int json" where
  "exampleParse t =
     (if t = headers (initial :: int component)
      then Inr (JObject [(js ''Content-Type'', JString (js ''application/json''))])
      else if t = js ''{'' @ [0x22] @ js ''a'' @ [0x22] @ js '':1}''
      then Inr (JObject [(js ''a'', JNumber 1)])
      else if t = js ''[1,2]'' then Inr (JArray [JNumber 1, JNumber 2])
      else if t = js ''null'' then Inr JNull
      else if t = js ''{}'' then Inr (JObject [])
      else Inl (ErrorInstance (js ''Unexpected token'')))"

definition examplePlatform :: "int platform" where
  "examplePlatform =
     \<lparr>JSON_parse = exampleParse, Number_toString = intToString,
      largeIntegerToString = intToString,
      bodyUsedError = ErrorInstance (js ''Failed to execute 'text' on 'Response': body stream already read'')\<rparr>"

text \<open>
  The draft and the response of the examples: a POST to \<open>https://example.test/create\<close>
  with a body and the headers text \<open>not-json\<close>, answered with status 201 and a JSON
  body.
\<close>

definition exampleDraft :: "int component" where
  "exampleDraft =
     initial\<lparr>url := js ''https://example.test/create'', httpMethod := js ''POST'',
             requestBody := js ''{'' @ [0x22] @ js ''x'' @ [0x22] @ js '':1}'',
             headers := js ''not-json''\<rparr>"

definition exampleCreated :: Response where
  "exampleCreated =
     \<lparr>res_status = 201, res_statusText = js ''Created'',
      res_headers = [(js ''content-type'', js ''application/json'')],
      res_body = Stream (Inr (js ''{'' @ [0x22] @ js ''a'' @ [0x22] @ js '':1}''))\<rparr>"

text \<open>A response that declares JSON and whose body is the text \<open>not-json\<close>.\<close>

definition exampleMislabelled :: Response where
  "exampleMislabelled =
     \<lparr>res_status = 200, res_statusText = js ''OK'',
      res_headers = [(js ''content-type'', js ''application/json'')],
      res_body = Stream (Inr (js ''not-json''))\<rparr>"

text \<open>
  A session of the examples: the user types the URL and sends; the transport answers
  with \<open>exampleCreated\<close>; the user sends again and the transport fails.
\<close>

definition exampleSession :: "action list" where
  "exampleSession =
     [SetUrl (js ''https://example.test/create''),
      Click 0,
      Settle (Inr exampleCreated) 35 35,
      Click 100,
      Settle (Inl (ErrorInstance (js ''Load failed''))) 120 120]"

section \<open>Properties\<close>

lemmas example_defs = exampleDraft_def exampleCreated_def exampleMislabelled_def
  examplePlatform_def exampleParse_def
  initial_def js_def isWhiteSpace_def


text \<open>
  C7. The status badge is green (success tier) for every status in [200,300), blue
  (redirect tier) in [300,400), yellow (client-error tier) in [400,500) and red
  (server-error / default tier) for every other status; in particular 200 is green,
  301 blue, 404 yellow, 500 red and 999 red.
\<close>

theorem getStatusColor_tiers:
  "(200 \<le> s \<and> s < 300 \<longrightarrow> getStatusColor s = js ''bg-green-500'') \<and>
   (300 \<le> s \<and> s < 400 \<longrightarrow> getStatusColor s = js ''bg-blue-500'') \<and>
   (400 \<le> s \<and> s < 500 \<longrightarrow> getStatusColor s = js ''bg-yellow-500'') \<and>
   (s < 200 \<or> 500 \<le> s \<longrightarrow> getStatusColor s = js ''bg-red-500'') \<and>
   getStatusColor 200 = js ''bg-green-500'' \<and>
   getStatusColor 301 = js ''bg-blue-500'' \<and>
   getStatusColor 404 = js ''bg-yellow-500'' \<and>
   getStatusColor 500 = js ''bg-red-500'' \<and>
   getStatusColor 999 = js ''bg-red-500''"
  by (simp add: getStatusColor_def)

theorem getStatusColor_tiers_witness:
  "getStatusColor 250 = js ''bg-green-500'' \<and>
   getStatusColor 399 = js ''bg-blue-500'' \<and>
   getStatusColor 400 = js ''bg-yellow-500'' \<and>
   getStatusColor 199 = js ''bg-red-500'' \<and>
   getStatusColor 65535 = js ''bg-red-500''"
  using getStatusColor_tiers [of 250] getStatusColor_tiers [of 399]
    getStatusColor_tiers [of 400] getStatusColor_tiers [of 199]
    getStatusColor_tiers [of 65535]
  by simp

subsection \<open>Blank strings\<close>

lemma dropWhile_all: "(\<forall>x\<in>set (dropWhile Q xs). Q x) = (\<forall>x\<in>set xs. Q x)"
proof
  assume h: "\<forall>x\<in>set (dropWhile Q xs). Q x"
  have "dropWhile Q xs = []"
  proof (rule ccontr)
    assume ne: "dropWhile Q xs \<noteq> []"
    then have "\<not> Q (hd (dropWhile Q xs))" by (rule hd_dropWhile)
    moreover have "hd (dropWhile Q xs) \<in> set (dropWhile Q xs)" using ne by simp
    ultimately show False using h by blast
  qed
  then show "\<forall>x\<in>set xs. Q x" by (simp add: dropWhile_eq_Nil_conv)
next
  assume "\<forall>x\<in>set xs. Q x"
  then show "\<forall>x\<in>set (dropWhile Q xs). Q x" by (blast dest: set_dropWhileD)
qed

lemma trim_blank_iff: "(trim s = []) = list_all isWhiteSpace s"
  by (simp add: trim_def list_all_iff dropWhile_all)

lemma trim_blank: "list_all isWhiteSpace s \<Longrightarrow> trim s = []"
  by (simp add: trim_blank_iff)

subsection \<open>Submission with a blank URL\<close>

text \<open>
  C2. When every code unit of the URL is white space (the URL is empty or blank), a call
  of \<open>makeRequest\<close> returns at line 39: the component state is the one before the
  call, the only effect is the notification "Please enter a valid URL", and the
  transport is not called.
\<close>

theorem blank_url_blocks_submission:
  assumes "list_all isWhiteSpace (url c)"
  shows "makeRequest_begin P c now0 =
           (c, [Toast \<lparr>title = js ''Error'', description = js ''Please enter a valid URL'',
                       variant = Some (js ''destructive'')\<rparr>], None)
       \<and> makeRequest P c now0 outcome now1 now2 =
           (c, [Toast \<lparr>title = js ''Error'', description = js ''Please enter a valid URL'',
                       variant = Some (js ''destructive'')\<rparr>])
       \<and> fetchCalls (snd (makeRequest P c now0 outcome now1 now2)) = []"
  using assms by (simp add: makeRequest_def makeRequest_begin_def truthy_def trim_blank)

theorem blank_url_blocks_submission_witness:
  "list_all isWhiteSpace (js ''   '')
   \<and> makeRequest examplePlatform (initial\<lparr>url := js ''   ''\<rparr>) 0 (Inl OtherValue) 1 1 =
           (initial\<lparr>url := js ''   ''\<rparr>,
            [Toast \<lparr>title = js ''Error'', description = js ''Please enter a valid URL'',
                       variant = Some (js ''destructive'')\<rparr>])"
  using blank_url_blocks_submission [of "initial\<lparr>url := js ''   ''\<rparr>" examplePlatform 0 "Inl OtherValue" 1 1]
  by (simp add: js_def isWhiteSpace_def)

subsection \<open>The request that is sent\<close>

text \<open>
  With a URL that is not blank, \<open>makeRequest\<close> reaches the call of \<open>fetch\<close>: the state
  is pending, and the effects are the reading of the clock, the two console lines and
  the call.
\<close>

lemma makeRequest_begin_sent:
  assumes "\<not> list_all isWhiteSpace (url c)"
  shows "makeRequest_begin P c now0 =
     (c\<lparr>loading := True, error := None\<rparr>,
      [PerformanceNow now0,
       ConsoleLog (js ''Making request to:'')
         (LoggedString (if useCorsProxy c then js ''https://cors-anywhere.herokuapp.com/'' @ url c
                        else url c)),
       ConsoleLog (js ''Request options:'')
         (LoggedInit \<lparr>init_method = httpMethod c,
            init_headers = (case JSON_parse P (headers c) of Inr v \<Rightarrow> v | Inl e \<Rightarrow> JObject []),
            init_mode = js ''cors'',
            init_body = (if httpMethod c \<noteq> js ''GET'' \<and> httpMethod c \<noteq> js ''HEAD''
                            \<and> \<not> list_all isWhiteSpace (requestBody c)
                         then Some (requestBody c) else None)\<rparr>),
       Fetch (if useCorsProxy c then js ''https://cors-anywhere.herokuapp.com/'' @ url c else url c)
         \<lparr>init_method = httpMethod c,
            init_headers = (case JSON_parse P (headers c) of Inr v \<Rightarrow> v | Inl e \<Rightarrow> JObject []),
            init_mode = js ''cors'',
            init_body = (if httpMethod c \<noteq> js ''GET'' \<and> httpMethod c \<noteq> js ''HEAD''
                            \<and> \<not> list_all isWhiteSpace (requestBody c)
                         then Some (requestBody c) else None)\<rparr>],
      Some now0)"
  using assms
  by (simp add: makeRequest_begin_def truthy_def trim_blank_iff Let_def)

lemma makeRequest_headers_irrelevant:
  assumes "JSON_parse P (headers c) = Inl e" and "JSON_parse P h = Inr (JObject [])"
  shows "makeRequest P c now0 outcome now1 now2 =
           (case makeRequest P (c\<lparr>headers := h\<rparr>) now0 outcome now1 now2 of
              (c', effs) \<Rightarrow> (c'\<lparr>headers := headers c\<rparr>, effs))"
proof (cases "list_all isWhiteSpace (url c)")
  case True
  then show ?thesis
    by (simp add: makeRequest_def makeRequest_begin_def truthy_def trim_blank_iff)
next
  case False
  then show ?thesis using assms
    by (simp add: makeRequest_def makeRequest_begin_sent makeRequest_settle_def
        makeRequest_catch_def Let_def split: sum.splits prod.splits)
qed

text \<open>
  C5. When \<open>JSON.parse\<close> throws on the headers text (and the URL is not blank), the
  request handed to the transport carries the empty object as its headers; it is sent
  all the same, with the body text when the method is neither GET nor HEAD and the body
  is not blank; no notification is fired before the transport is called, and the stored
  error is cleared. Nothing later tells the two apart: the whole call ends in the same
  state (up to the headers text itself) and with the same effects as with a headers
  text that parses to the empty object.
\<close>

theorem unparseable_headers_sent_empty:
  assumes "JSON_parse P (headers c) = Inl e" and "\<not> list_all isWhiteSpace (url c)"
  shows "\<exists>u req.
           makeRequest_begin P c now0 =
             (c\<lparr>loading := True, error := None\<rparr>,
              [PerformanceNow now0,
               ConsoleLog (js ''Making request to:'') (LoggedString u),
               ConsoleLog (js ''Request options:'') (LoggedInit req),
               Fetch u req],
              Some now0)
         \<and> init_headers req = JObject []
         \<and> init_body req =
             (if httpMethod c \<noteq> js ''GET'' \<and> httpMethod c \<noteq> js ''HEAD''
                 \<and> \<not> list_all isWhiteSpace (requestBody c)
              then Some (requestBody c) else None)
         \<and> toasts (fst (snd (makeRequest_begin P c now0))) = []
         \<and> (JSON_parse P h = Inr (JObject []) \<longrightarrow>
              makeRequest P c now0 outcome now1 now2 =
                (case makeRequest P (c\<lparr>headers := h\<rparr>) now0 outcome now1 now2 of
                   (c', effs) \<Rightarrow> (c'\<lparr>headers := headers c\<rparr>, effs)))"
  using assms makeRequest_headers_irrelevant [of P c e h now0 outcome now1 now2]
  by (simp add: makeRequest_begin_sent)


theorem unparseable_headers_sent_empty_witness:
  "JSON_parse examplePlatform (headers exampleDraft) = Inl (ErrorInstance (js ''Unexpected token''))
   \<and> \<not> list_all isWhiteSpace (url exampleDraft)
   \<and> fetchCalls (fst (snd (makeRequest_begin examplePlatform exampleDraft 0))) =
       [(js ''https://example.test/create'',
         \<lparr>init_method = js ''POST'', init_headers = JObject [], init_mode = js ''cors'',
          init_body = Some (js ''{'' @ [0x22] @ js ''x'' @ [0x22] @ js '':1}'')\<rparr>)]
   \<and> toasts (fst (snd (makeRequest_begin examplePlatform exampleDraft 0))) = []
   \<and> JSON_parse examplePlatform (js ''{}'') = Inr (JObject [])
   \<and> makeRequest examplePlatform exampleDraft 0 (Inr exampleCreated) 35 35 =
       (case makeRequest examplePlatform (exampleDraft\<lparr>headers := js ''{}''\<rparr>) 0
               (Inr exampleCreated) 35 35 of
          (c', effs) \<Rightarrow> (c'\<lparr>headers := headers exampleDraft\<rparr>, effs))"
proof -
  have p: "JSON_parse examplePlatform (headers exampleDraft) = Inl (ErrorInstance (js ''Unexpected token''))"
    by (simp add: example_defs)
  have u: "\<not> list_all isWhiteSpace (url exampleDraft)"
    by (simp add: example_defs)
  have q: "JSON_parse examplePlatform (js ''{}'') = Inr (JObject [])"
    by (simp add: example_defs)
  from unparseable_headers_sent_empty [OF p u, of 0 "js ''{}''" "Inr exampleCreated" 35 35]
  obtain v req where
    b: "makeRequest_begin examplePlatform exampleDraft 0 =
          (exampleDraft\<lparr>loading := True, error := None\<rparr>,
           [PerformanceNow 0, ConsoleLog (js ''Making request to:'') (LoggedString v),
            ConsoleLog (js ''Request options:'') (LoggedInit req), Fetch v req], Some 0)"
    and h: "init_headers req = JObject []"
    and t: "toasts (fst (snd (makeRequest_begin examplePlatform exampleDraft 0))) = []"
    and n: "JSON_parse examplePlatform (js ''{}'') = Inr (JObject []) \<longrightarrow>
              makeRequest examplePlatform exampleDraft 0 (Inr exampleCreated) 35 35 =
       (case makeRequest examplePlatform (exampleDraft\<lparr>headers := js ''{}''\<rparr>) 0
               (Inr exampleCreated) 35 35 of
          (c', effs) \<Rightarrow> (c'\<lparr>headers := headers exampleDraft\<rparr>, effs))"
    by blast
  have f: "fetchCalls (fst (snd (makeRequest_begin examplePlatform exampleDraft 0))) =
       [(js ''https://example.test/create'',
         \<lparr>init_method = js ''POST'', init_headers = JObject [], init_mode = js ''cors'',
          init_body = Some (js ''{'' @ [0x22] @ js ''x'' @ [0x22] @ js '':1}'')\<rparr>)]"
    by (simp add: makeRequest_begin_def Let_def truthy_def trim_def example_defs)
  show ?thesis using p u q t n f by blast
qed


text \<open>
  C6. With a URL that is not blank, exactly one request is handed to the transport; it
  has a body exactly when the method is neither GET nor HEAD and the body text is not
  blank; the body is then the body text as typed; for HEAD there is no body whatever
  the body text is.
\<close>

theorem body_attached_iff:
  assumes "\<not> list_all isWhiteSpace (url c)"
  shows "\<exists>u req.
           fetchCalls (fst (snd (makeRequest_begin P c now0))) = [(u, req)]
         \<and> (init_body req \<noteq> None) =
             (httpMethod c \<noteq> js ''GET'' \<and> httpMethod c \<noteq> js ''HEAD''
              \<and> \<not> list_all isWhiteSpace (requestBody c))
         \<and> (init_body req \<noteq> None \<longrightarrow> init_body req = Some (requestBody c))
         \<and> (httpMethod c = js ''HEAD'' \<longrightarrow> init_body req = None)"
  using assms by (simp add: makeRequest_begin_sent)

theorem body_attached_iff_witness:
  "\<not> list_all isWhiteSpace (url exampleDraft)
   \<and> (\<exists>u req.
         fetchCalls (fst (snd (makeRequest_begin examplePlatform exampleDraft 0))) = [(u, req)]
       \<and> init_body req = Some (requestBody exampleDraft))
   \<and> \<not> list_all isWhiteSpace (url (exampleDraft\<lparr>httpMethod := js ''HEAD''\<rparr>))
   \<and> (\<exists>u req.
         fetchCalls (fst (snd (makeRequest_begin examplePlatform
                                  (exampleDraft\<lparr>httpMethod := js ''HEAD''\<rparr>) 0))) = [(u, req)]
       \<and> init_body req = None)"
proof -
  have u: "\<not> list_all isWhiteSpace (url exampleDraft)"
    by (simp add: example_defs)
  have u': "\<not> list_all isWhiteSpace (url (exampleDraft\<lparr>httpMethod := js ''HEAD''\<rparr>))"
    by (simp add: example_defs)
  have m: "httpMethod exampleDraft \<noteq> js ''GET''" "httpMethod exampleDraft \<noteq> js ''HEAD''"
    "\<not> list_all isWhiteSpace (requestBody exampleDraft)"
    by (simp_all add: example_defs)
  have m': "httpMethod (exampleDraft\<lparr>httpMethod := js ''HEAD''\<rparr>) = js ''HEAD''"
    by simp
  show ?thesis
    using u u' m m' body_attached_iff [OF u, of examplePlatform 0]
      body_attached_iff [OF u', of examplePlatform 0]
    by fastforce
qed

text \<open>
  C10. Whatever value \<open>JSON.parse\<close> returns for the headers text, an object or not (an
  array, a number, a string, \<open>null\<close>), that value is the \<open>headers\<close> of the request
  handed to the transport: nothing checks that it is an object, and the empty object
  replaces it only when \<open>JSON.parse\<close> throws.
\<close>

theorem parsed_headers_passed_through:
  assumes "JSON_parse P (headers c) = Inr v" and "\<not> list_all isWhiteSpace (url c)"
  shows "\<exists>u req.
           fetchCalls (fst (snd (makeRequest_begin P c now0))) = [(u, req)]
         \<and> init_headers req = v"
  using assms by (simp add: makeRequest_begin_sent)

theorem parsed_headers_passed_through_witness:
  "JSON_parse examplePlatform (headers (exampleDraft\<lparr>headers := js ''[1,2]''\<rparr>))
     = Inr (JArray [JNumber 1, JNumber 2])
   \<and> \<not> list_all isWhiteSpace (url (exampleDraft\<lparr>headers := js ''[1,2]''\<rparr>))
   \<and> (\<exists>u req.
         fetchCalls (fst (snd (makeRequest_begin examplePlatform
                                  (exampleDraft\<lparr>headers := js ''[1,2]''\<rparr>) 0))) = [(u, req)]
       \<and> init_headers req = JArray [JNumber 1, JNumber 2])
   \<and> JSON_parse examplePlatform (headers (exampleDraft\<lparr>headers := js ''null''\<rparr>)) = Inr JNull
   \<and> \<not> list_all isWhiteSpace (url (exampleDraft\<lparr>headers := js ''null''\<rparr>))
   \<and> (\<exists>u req.
         fetchCalls (fst (snd (makeRequest_begin examplePlatform
                                  (exampleDraft\<lparr>headers := js ''null''\<rparr>) 0))) = [(u, req)]
       \<and> init_headers req = JNull)"
proof -
  have p: "JSON_parse examplePlatform (headers (exampleDraft\<lparr>headers := js ''[1,2]''\<rparr>))
             = Inr (JArray [JNumber 1, JNumber 2])"
    by (simp add: example_defs)
  have u: "\<not> list_all isWhiteSpace (url (exampleDraft\<lparr>headers := js ''[1,2]''\<rparr>))"
    by (simp add: example_defs)
  have p': "JSON_parse examplePlatform (headers (exampleDraft\<lparr>headers := js ''null''\<rparr>)) = Inr JNull"
    by (simp add: example_defs)
  have u': "\<not> list_all isWhiteSpace (url (exampleDraft\<lparr>headers := js ''null''\<rparr>))"
    by (simp add: example_defs)
  show ?thesis
    using p u p' u' parsed_headers_passed_through [OF p u, of 0]
      parsed_headers_passed_through [OF p' u', of 0]
    by blast
qed

subsection \<open>Failures\<close>

lemma cors_prefix_includes: "includes_str (js ''CORS Error: '' @ x) (js ''CORS'')"
  by (simp add: includes_str_def js_def sublist_Cons_right)

lemma content_failed:
  assumes "\<not> loading c" and "error c = Some e" and "e \<noteq> []"
  shows "content P c = [FailureBanner e (includes_str e (js ''CORS''))]"
  using assms by (simp add: content_def truthy_def truthy_opt_def split: option.splits)

lemma cors_prefix_nonempty: "js ''CORS Error: '' \<noteq> []"
  by (simp add: js_def)

lemma includes_middle: "includes_str (a @ m @ b) m"
  by (simp add: includes_str_def)

lemma unknown_not_cors:
  "\<not> includes_str (js ''Unknown error occurred'') (js ''CORS'')"
  "\<not> includes_str (js ''Unknown error occurred'') (js ''fetch'')"
  by (simp_all add: includes_str_def js_def sublist_Cons_right)

text \<open>
  C8, as stated, fails in its last clause: an \<open>Error\<close> that carries no message has the
  empty string as its \<open>message\<close>, line 111 takes it as it is, and the generic fallback
  is not used. The stored failure message and the text of the notification are empty,
  and since the empty string is falsy no failure banner is rendered: with no response
  stored the content is the placeholder.
\<close>

theorem empty_message_stored_without_fallback:
  "error (fst (makeRequest_settle examplePlatform (exampleDraft\<lparr>loading := True\<rparr>) 0
                 (Inl (ErrorInstance [])) 20 20)) = Some []
   \<and> toasts (snd (makeRequest_settle examplePlatform (exampleDraft\<lparr>loading := True\<rparr>) 0
                    (Inl (ErrorInstance [])) 20 20))
       = [\<lparr>title = js ''Request Failed'', description = [],
           variant = Some (js ''destructive'')\<rparr>]
   \<and> content examplePlatform
         (fst (makeRequest_settle examplePlatform (exampleDraft\<lparr>loading := True\<rparr>) 0
                 (Inl (ErrorInstance [])) 20 20))
       = [Placeholder]"
proof -
  have n: "\<not> includes_str [] (js ''CORS'')" "\<not> includes_str [] (js ''fetch'')"
    by (simp_all add: includes_str_def js_def)
  have r: "response exampleDraft = None"
    by (simp add: example_defs)
  show ?thesis
    using n r
    by (simp add: makeRequest_settle_def makeRequest_catch_def Let_def content_def
        truthy_def truthy_opt_def)
qed

text \<open>
  C8, amended. When the transport rejects with an \<open>Error\<close> whose message contains
  \<open>CORS\<close> or \<open>fetch\<close> (as \<open>Failed to fetch\<close> does), the stored failure message is
  \<open>CORS Error: \<close>, the original message, and the remediation sentence; it is also the
  text of the notification, and the failure banner is rendered with the checklist of
  CORS solutions. When the thrown value is not an \<open>Error\<close> instance, the stored message
  is \<open>Unknown error occurred\<close>.
\<close>

theorem cors_failure_message:
  "(includes_str m (js ''CORS'') \<or> includes_str m (js ''fetch'') \<longrightarrow>
     (\<exists>c' effs msg.
        makeRequest_settle P c startTime (Inl (ErrorInstance m)) now1 now2 = (c', effs)
      \<and> msg = js ''CORS Error: '' @ m
              @ js ''. Try enabling CORS proxy or configure the server to allow cross-origin requests.''
      \<and> error c' = Some msg
      \<and> includes_str msg m
      \<and> toasts effs = [\<lparr>title = js ''Request Failed'', description = msg,
                         variant = Some (js ''destructive'')\<rparr>]
      \<and> content P c' = [FailureBanner msg True]))
   \<and> (\<exists>c' effs.
        makeRequest_settle P c startTime (Inl OtherValue) now1 now2 = (c', effs)
      \<and> error c' = Some (js ''Unknown error occurred'')
      \<and> content P c' = [FailureBanner (js ''Unknown error occurred'') False])"
proof (intro conjI impI)
  assume a: "includes_str m (js ''CORS'') \<or> includes_str m (js ''fetch'')"
  show "\<exists>c' effs msg.
        makeRequest_settle P c startTime (Inl (ErrorInstance m)) now1 now2 = (c', effs)
      \<and> msg = js ''CORS Error: '' @ m
              @ js ''. Try enabling CORS proxy or configure the server to allow cross-origin requests.''
      \<and> error c' = Some msg
      \<and> includes_str msg m
      \<and> toasts effs = [\<lparr>title = js ''Request Failed'', description = msg,
                         variant = Some (js ''destructive'')\<rparr>]
      \<and> content P c' = [FailureBanner msg True]"
    using a cors_prefix_nonempty cors_prefix_includes [of "m @ js ''. Try enabling CORS proxy or configure the server to allow cross-origin requests.''"]
      includes_middle [of "js ''CORS Error: ''" m "js ''. Try enabling CORS proxy or configure the server to allow cross-origin requests.''"]
    by (auto simp add: makeRequest_settle_def makeRequest_catch_def Let_def content_failed)
next
  have ne: "js ''Unknown error occurred'' \<noteq> []" by (simp add: js_def)
  show "\<exists>c' effs.
        makeRequest_settle P c startTime (Inl OtherValue) now1 now2 = (c', effs)
      \<and> error c' = Some (js ''Unknown error occurred'')
      \<and> content P c' = [FailureBanner (js ''Unknown error occurred'') False]"
    using unknown_not_cors ne
    by (simp add: makeRequest_settle_def makeRequest_catch_def Let_def content_failed)
qed

theorem cors_failure_message_witness:
  "(includes_str (js ''Failed to fetch'') (js ''CORS'')
      \<or> includes_str (js ''Failed to fetch'') (js ''fetch''))
   \<and> (\<exists>c' effs.
        makeRequest_settle examplePlatform (exampleDraft\<lparr>loading := True\<rparr>) 0
          (Inl (ErrorInstance (js ''Failed to fetch''))) 20 20 = (c', effs)
      \<and> error c' = Some (js ''CORS Error: Failed to fetch. Try enabling CORS proxy or configure the server to allow cross-origin requests.'')
      \<and> content examplePlatform c' = [FailureBanner (js ''CORS Error: Failed to fetch. Try enabling CORS proxy or configure the server to allow cross-origin requests.'') True])"
proof -
  have i: "includes_str (js ''Failed to fetch'') (js ''CORS'')
      \<or> includes_str (js ''Failed to fetch'') (js ''fetch'')"
    by (simp add: includes_str_def js_def sublist_Cons_right)
  have e: "js ''CORS Error: '' @ js ''Failed to fetch''
              @ js ''. Try enabling CORS proxy or configure the server to allow cross-origin requests.''
         = js ''CORS Error: Failed to fetch. Try enabling CORS proxy or configure the server to allow cross-origin requests.''"
    by (simp add: js_def)
  show ?thesis
    using i e cors_failure_message [of "js ''Failed to fetch''" examplePlatform
        "exampleDraft\<lparr>loading := True\<rparr>" 0 20 20]
    by auto
qed

subsection \<open>Reading the body of the response\<close>

text \<open>
  What lines 76-87 deliver for a body that can be read: the parsed value when the
  response declares JSON and its text parses; the text when it does not declare JSON;
  and, for a response without a body that declares JSON, the empty text after
  \<open>res.json()\<close> has failed on the empty input.
\<close>

lemma includes_nonempty: "includes_str s (x # xs) \<Longrightarrow> s \<noteq> []"
  by (auto simp add: includes_str_def)

lemma declares_json:
  assumes "Headers_get (res_headers res) (js ''content-type'') = Some ct"
    and "includes_str ct (js ''application/json'')"
  shows "(case Headers_get (res_headers res) (js ''content-type'') of
            None \<Rightarrow> False
          | Some ct \<Rightarrow> truthy ct \<and> includes_str ct (js ''application/json''))"
  using assms includes_nonempty [of ct "of_char CHR ''a''" "js ''pplication/json''"]
  by (simp add: truthy_def js_def)

lemma readBody_json:
  assumes "Headers_get (res_headers res) (js ''content-type'') = Some ct"
    and "includes_str ct (js ''application/json'')"
    and "res_body res = Stream (Inr t)" and "JSON_parse P t = Inr v"
  shows "readBody P res = (Inr v, [ResJson])"
  using declares_json [OF assms(1,2)] assms(3,4)
  by (simp add: readBody_def Response_json_def)

lemma readBody_text:
  assumes "\<not> (case Headers_get (res_headers res) (js ''content-type'') of
            None \<Rightarrow> False
          | Some ct \<Rightarrow> truthy ct \<and> includes_str ct (js ''application/json''))"
    and "res_body res = Stream (Inr t)"
  shows "readBody P res = (Inr (JString t), [ResText])"
  using assms by (simp add: readBody_def Response_text_def)

lemma readBody_json_null_body:
  assumes "Headers_get (res_headers res) (js ''content-type'') = Some ct"
    and "includes_str ct (js ''application/json'')"
    and "res_body res = NullBody" and "JSON_parse P [] = Inl e"
  shows "readBody P res = (Inr (JString []), [ResJson, ResText])"
  using declares_json [OF assms(1,2)] assms(3,4)
  by (simp add: readBody_def Response_json_def Response_text_def)

text \<open>
  C9 (the code departs from the claim). When the response declares JSON and its body is
  a text that \<open>JSON.parse\<close> rejects, \<open>res.json()\<close> has consumed the body before it
  fails, so the \<open>res.text()\<close> of line 83 rejects with the platform's \<open>TypeError\<close> for
  a body already read. That error leaves the \<open>try\<close> block: the call ends in the
  \<open>catch\<close> block of line 107 with a stored failure message and no new response,
  instead of showing the body as plain text.
\<close>

theorem json_fallback_rejected:
  assumes "Headers_get (res_headers res) (js ''content-type'') = Some ct"
    and "includes_str ct (js ''application/json'')"
    and "res_body res = Stream (Inr t)" and "JSON_parse P t = Inl e"
  shows "readBody P res = (Inl (bodyUsedError P), [ResJson, ResText])
       \<and> makeRequest_settle P c startTime (Inr res) now1 now2 =
           (case makeRequest_catch c startTime (bodyUsedError P) now2 of
              (c', effs) \<Rightarrow> (c', [PerformanceNow now1, ResJson, ResText] @ effs))
       \<and> response (fst (makeRequest_settle P c startTime (Inr res) now1 now2)) = response c
       \<and> error (fst (makeRequest_settle P c startTime (Inr res) now1 now2)) \<noteq> None"
proof -
  have r: "readBody P res = (Inl (bodyUsedError P), [ResJson, ResText])"
    using declares_json [OF assms(1,2)] assms(3,4)
    by (simp add: readBody_def Response_json_def Response_text_def)
  show ?thesis
    by (simp add: r makeRequest_settle_def makeRequest_catch_def Let_def)
qed

theorem json_fallback_rejected_witness:
  "Headers_get (res_headers exampleMislabelled) (js ''content-type'') = Some (js ''application/json'')
   \<and> includes_str (js ''application/json'') (js ''application/json'')
   \<and> res_body exampleMislabelled = Stream (Inr (js ''not-json''))
   \<and> JSON_parse examplePlatform (js ''not-json'') = Inl (ErrorInstance (js ''Unexpected token''))
   \<and> readBody examplePlatform exampleMislabelled
       = (Inl (ErrorInstance (js ''Failed to execute 'text' on 'Response': body stream already read'')),
          [ResJson, ResText])
   \<and> makeRequest_settle examplePlatform (exampleDraft\<lparr>loading := True\<rparr>) 0
         (Inr exampleMislabelled) 20 21
       = (exampleDraft\<lparr>loading := False,
            error := Some (js ''Failed to execute 'text' on 'Response': body stream already read'')\<rparr>,
          [PerformanceNow 20, ResJson, ResText, PerformanceNow 21,
           ConsoleError (js ''Request failed:'')
             (LoggedThrown (ErrorInstance (js ''Failed to execute 'text' on 'Response': body stream already read''))),
           Toast \<lparr>title = js ''Request Failed'',
                  description = js ''Failed to execute 'text' on 'Response': body stream already read'',
                  variant = Some (js ''destructive'')\<rparr>])"
proof -
  have h: "Headers_get (res_headers exampleMislabelled) (js ''content-type'') = Some (js ''application/json'')"
    by (simp add: Headers_get_def example_defs)
  have i: "includes_str (js ''application/json'') (js ''application/json'')"
    by (simp add: includes_str_def)
  have b: "res_body exampleMislabelled = Stream (Inr (js ''not-json''))"
    by (simp add: example_defs)
  have p: "JSON_parse examplePlatform (js ''not-json'') = Inl (ErrorInstance (js ''Unexpected token''))"
    by (simp add: example_defs)
  have m: "bodyUsedError examplePlatform
             = ErrorInstance (js ''Failed to execute 'text' on 'Response': body stream already read'')"
    by (simp add: examplePlatform_def)
  have n: "\<not> includes_str (js ''Failed to execute 'text' on 'Response': body stream already read'') (js ''CORS'')"
    "\<not> includes_str (js ''Failed to execute 'text' on 'Response': body stream already read'') (js ''fetch'')"
    by (simp_all add: includes_str_def js_def sublist_Cons_right)
  have c: "makeRequest_catch (exampleDraft\<lparr>loading := True\<rparr>) 0
             (ErrorInstance (js ''Failed to execute 'text' on 'Response': body stream already read'')) 21
       = (exampleDraft\<lparr>loading := False,
            error := Some (js ''Failed to execute 'text' on 'Response': body stream already read'')\<rparr>,
          [PerformanceNow 21,
           ConsoleError (js ''Request failed:'')
             (LoggedThrown (ErrorInstance (js ''Failed to execute 'text' on 'Response': body stream already read''))),
           Toast \<lparr>title = js ''Request Failed'',
                  description = js ''Failed to execute 'text' on 'Response': body stream already read'',
                  variant = Some (js ''destructive'')\<rparr>])"
    using n by (simp add: makeRequest_catch_def Let_def)
  show ?thesis
    using h i b p json_fallback_rejected [OF h i b p, of "exampleDraft\<lparr>loading := True\<rparr>" 0 20 21]
    by (simp add: m c)
qed

subsection \<open>Formatting\<close>

lemma length_quoteUnit: "1 \<le> length (quoteUnit c)"
  by (simp add: quoteUnit_def UnicodeEscape_def)

lemma length_quoteUnits: "length s \<le> length (quoteUnits s)"
proof (induction s rule: quoteUnits.induct)
  case 1
  then show ?case by simp
next
  case (2 c)
  then show ?case using length_quoteUnit [of c] by simp
next
  case (3 c d cs)
  then show ?case using length_quoteUnit [of c] by auto
qed

lemma formatJson_JString: "formatJson P (JString s) = QuoteJSONString s"
  by (simp add: formatJson_def JSON_stringify_def)

text \<open>
  C4, as stated, fails: the formatter applied to its own output does not give the same
  text. For the value \<open>{"a": 1}\<close> the first formatting is the three lines of the
  pretty-printed object, and formatting that string gives one line, inside double
  quotes, with each line break written \<open>\n\<close> and each double quote escaped.
\<close>

theorem formatJson_not_idempotent:
  "formatJson examplePlatform (JObject [(js ''a'', JNumber 1)])
     = js ''{'' @ [0xA] @ js ''  '' @ [0x22] @ js ''a'' @ [0x22] @ js '': 1'' @ [0xA] @ js ''}''
   \<and> formatJson examplePlatform
       (JString (formatJson examplePlatform (JObject [(js ''a'', JNumber 1)])))
     = [0x22] @ js ''{'' @ [0x5C] @ js ''n  '' @ [0x5C, 0x22] @ js ''a'' @ [0x5C, 0x22] @ js '': 1''
       @ [0x5C] @ js ''n}'' @ [0x22]
   \<and> formatJson examplePlatform
       (JString (formatJson examplePlatform (JObject [(js ''a'', JNumber 1)])))
     \<noteq> formatJson examplePlatform (JObject [(js ''a'', JNumber 1)])"
  by (simp add: formatJson_def JSON_stringify_def examplePlatform_def js_def gap_def
      QuoteJSONString_def quoteUnit_def intToString_def digitsOf.simps
      isLeadingSurrogate_def isTrailingSurrogate_def)


text \<open>
  C4, amended. For every JSON value, formatting the string that formatting the value
  produced gives the JSON string literal of that text: the text between double quotes
  with its characters escaped as \<open>QuoteJSONString\<close> does, which is at least two
  characters longer than the first formatting and so never equal to it.
\<close>

theorem formatJson_of_formatted:
  "formatJson P (JString (formatJson P v)) = [0x22] @ quoteUnits (formatJson P v) @ [0x22]
   \<and> length (formatJson P v) + 2 \<le> length (formatJson P (JString (formatJson P v)))
   \<and> formatJson P (JString (formatJson P v)) \<noteq> formatJson P v"
proof -
  have e: "formatJson P (JString (formatJson P v)) = [0x22] @ quoteUnits (formatJson P v) @ [0x22]"
    by (simp add: formatJson_JString QuoteJSONString_def)
  have l: "length (formatJson P v) + 2 \<le> length (formatJson P (JString (formatJson P v)))"
    using length_quoteUnits [of "formatJson P v"] by (simp add: e)
  have "length (formatJson P (JString (formatJson P v))) \<noteq> length (formatJson P v)"
    using l by simp
  then have "formatJson P (JString (formatJson P v)) \<noteq> formatJson P v"
    by metis
  then show ?thesis using e l by blast
qed

subsection \<open>Doubles\<close>

lemma ulp_pos: "0 < ulp x"
  by (simp add: ulp_def)

lemma roundTiesToEven_nonneg: "0 \<le> y \<Longrightarrow> 0 \<le> roundTiesToEven y"
  by (simp add: roundTiesToEven_def Let_def)

lemma roundTiesToEven_nearest: "\<bar>real_of_int (roundTiesToEven y) - y\<bar> \<le> 1 / 2"
  unfolding roundTiesToEven_def Let_def by (simp split: if_splits)

lemma roundToDouble_nonneg: "0 \<le> x \<Longrightarrow> 0 \<le> roundToDouble x"
  using ulp_pos [of x] roundTiesToEven_nonneg [of "x / ulp x"]
  by (simp add: roundToDouble_def)

lemma roundToDouble_error: "\<bar>roundToDouble x - x\<bar> \<le> ulp x / 2"
proof (cases "x = 0")
  case True
  then show ?thesis using ulp_pos [of x] by (simp add: roundToDouble_def)
next
  case False
  have "\<bar>real_of_int (roundTiesToEven (x / ulp x)) - x / ulp x\<bar> * ulp x \<le> 1 / 2 * ulp x"
    using roundTiesToEven_nearest [of "x / ulp x"] ulp_pos [of x]
    by (intro mult_right_mono) simp_all
  moreover have "\<bar>real_of_int (roundTiesToEven (x / ulp x)) - x / ulp x\<bar> * ulp x
                   = \<bar>real_of_int (roundTiesToEven (x / ulp x)) * ulp x - x\<bar>"
  proof -
    have "\<bar>real_of_int (roundTiesToEven (x / ulp x)) - x / ulp x\<bar> * ulp x
            = \<bar>(real_of_int (roundTiesToEven (x / ulp x)) - x / ulp x) * ulp x\<bar>"
      using ulp_pos [of x] by (simp add: abs_mult)
    also have "(real_of_int (roundTiesToEven (x / ulp x)) - x / ulp x) * ulp x
                 = real_of_int (roundTiesToEven (x / ulp x)) * ulp x - x"
      using ulp_pos [of x] by (simp add: algebra_simps)
    finally show ?thesis .
  qed
  ultimately show ?thesis using False by (simp add: roundToDouble_def)
qed

lemma Number_minus_nonneg: "b \<le> a \<Longrightarrow> 0 \<le> Number_minus a b"
  by (simp add: Number_minus_def roundToDouble_nonneg)

lemma floor_log2:
  assumes "0 < x" and "power_int 2 e \<le> x" and "x < power_int 2 (e + 1)"
  shows "\<lfloor>log 2 x\<rfloor> = e"
proof -
  have "2 powr (of_int e) \<le> x \<and> x < 2 powr (of_int (e + 1))"
    using assms by (simp add: powr_real_of_int' del: of_int_add)
  then show ?thesis using assms(1) by (simp add: floor_log_eq_powr_iff)
qed

lemma ulp_eq:
  assumes "0 < \<bar>x\<bar>" and "power_int 2 e \<le> \<bar>x\<bar>" and "\<bar>x\<bar> < power_int 2 (e + 1)"
  shows "ulp x = power_int 2 (max e (- 1022) - 52)"
  using floor_log2 [OF assms] by (simp add: ulp_def)

text \<open>
  Rounding a given number: find its binade \<open>e\<close>, divide by the spacing, round the
  quotient.
\<close>

lemma roundToDouble_eval:
  assumes "0 < \<bar>x\<bar>" and "power_int 2 e \<le> \<bar>x\<bar>" and "\<bar>x\<bar> < power_int 2 (e + 1)"
    and "u = power_int 2 (max e (- 1022) - 52)" and "roundTiesToEven (x / u) = m"
  shows "roundToDouble x = of_int m * u"
proof -
  have "ulp x = u" using ulp_eq [OF assms(1,2,3)] assms(4) by simp
  moreover have "x \<noteq> 0" using assms(1) by auto
  ultimately show ?thesis using assms(5) by (simp add: roundToDouble_def)
qed

lemma Number_minus_35: "Number_minus 35 0 = 35"
proof -
  have "roundToDouble 35 = of_int (35 * 2 ^ 47) * (1 / 2 ^ 47)"
    by (rule roundToDouble_eval [where e = 5]) (simp_all add: roundTiesToEven_def)
  then show ?thesis by (simp add: Number_minus_def)
qed

text \<open>
  The doubles nearest to 0.1 and to 0.6, and their difference: the exact difference is
  one unit in the last place short of a half and lies midway between two doubles; it
  rounds to the half.
\<close>

lemma isDouble_tenth: "isDouble (3602879701896397 / 2 ^ 55)"
proof -
  have "roundToDouble (3602879701896397 / 2 ^ 55) = of_int 7205759403792794 * (1 / 2 ^ 56)"
    by (rule roundToDouble_eval [where e = "- 4"]) (simp_all add: roundTiesToEven_def)
  then show ?thesis by (simp add: isDouble_def)
qed

lemma isDouble_six_tenths: "isDouble (5404319552844595 / 2 ^ 53)"
proof -
  have "roundToDouble (5404319552844595 / 2 ^ 53) = of_int 5404319552844595 * (1 / 2 ^ 53)"
    by (rule roundToDouble_eval [where e = "- 1"]) (simp_all add: roundTiesToEven_def)
  then show ?thesis by (simp add: isDouble_def)
qed

lemma Number_minus_tie:
  "Number_minus (5404319552844595 / 2 ^ 53) (3602879701896397 / 2 ^ 55) = 1 / 2"
proof -
  have "roundToDouble (5404319552844595 / 2 ^ 53 - 3602879701896397 / 2 ^ 55)
          = of_int (2 ^ 53) * (1 / 2 ^ 54)"
    by (rule roundToDouble_eval [where e = "- 2"]) (simp_all add: roundTiesToEven_def)
  then show ?thesis by (simp add: Number_minus_def)
qed

subsection \<open>Elapsed time\<close>

lemma Math_round_nonneg: "0 \<le> x \<Longrightarrow> 0 \<le> Math_round x"
  by (simp add: Math_round_def)

lemma Math_round_nearest: "\<bar>real_of_int (Math_round x) - x\<bar> \<le> 1 / 2"
  unfolding Math_round_def by linarith

lemma readBody_exampleCreated: "readBody examplePlatform exampleCreated = (Inr (JObject [(js ''a'', JNumber 1)]), [ResJson])"
  by (simp add: readBody_def Headers_get_def Response_json_def truthy_def includes_str_def
        example_defs)

text \<open>
  C3, as stated, fails twice. In the example call the two timestamps bracket the two
  console lines as well as the call of the transport: the start is read at line 44,
  before the headers are parsed and the request is built and logged. And the call
  fails with \<open>Load failed\<close>: the state it ends in stores the message and no elapsed
  time.
\<close>

theorem start_time_precedes_logging:
  "bracketed (snd (makeRequest examplePlatform exampleDraft 0
                     (Inl (ErrorInstance (js ''Load failed''))) 20 20)) =
     [ConsoleLog (js ''Making request to:'') (LoggedString (js ''https://example.test/create'')),
      ConsoleLog (js ''Request options:'')
        (LoggedInit \<lparr>init_method = js ''POST'', init_headers = JObject [],
                      init_mode = js ''cors'', init_body = Some (requestBody exampleDraft)\<rparr>),
      Fetch (js ''https://example.test/create'')
        \<lparr>init_method = js ''POST'', init_headers = JObject [],
         init_mode = js ''cors'', init_body = Some (requestBody exampleDraft)\<rparr>]
   \<and> fst (makeRequest examplePlatform exampleDraft 0
            (Inl (ErrorInstance (js ''Load failed''))) 20 20) =
       exampleDraft\<lparr>loading := False, error := Some (js ''Load failed'')\<rparr>
   \<and> response (fst (makeRequest examplePlatform exampleDraft 0
            (Inl (ErrorInstance (js ''Load failed''))) 20 20)) = None"
proof -
  have u: "\<not> list_all isWhiteSpace (url exampleDraft)"
    by (simp add: example_defs)
  have n: "\<not> includes_str (js ''Load failed'') (js ''CORS'')"
    "\<not> includes_str (js ''Load failed'') (js ''fetch'')"
    by (simp_all add: includes_str_def js_def sublist_Cons_right)
  have b: "fst (snd (makeRequest_begin examplePlatform exampleDraft 0)) =
     [PerformanceNow 0,
      ConsoleLog (js ''Making request to:'') (LoggedString (js ''https://example.test/create'')),
      ConsoleLog (js ''Request options:'')
        (LoggedInit \<lparr>init_method = js ''POST'', init_headers = JObject [],
                      init_mode = js ''cors'', init_body = Some (requestBody exampleDraft)\<rparr>),
      Fetch (js ''https://example.test/create'')
        \<lparr>init_method = js ''POST'', init_headers = JObject [],
         init_mode = js ''cors'', init_body = Some (requestBody exampleDraft)\<rparr>]"
    by (simp add: makeRequest_begin_sent [OF u]) (simp add: example_defs)
  have f: "fst (makeRequest examplePlatform exampleDraft 0
            (Inl (ErrorInstance (js ''Load failed''))) 20 20) =
       exampleDraft\<lparr>loading := False, error := Some (js ''Load failed'')\<rparr>"
    using n
    by (simp add: makeRequest_def makeRequest_begin_sent [OF u] makeRequest_settle_def
        makeRequest_catch_def Let_def)
  have e: "bracketed (snd (makeRequest examplePlatform exampleDraft 0
                     (Inl (ErrorInstance (js ''Load failed''))) 20 20)) =
             bracketed (fst (snd (makeRequest_begin examplePlatform exampleDraft 0)) @ [PerformanceNow 20])"
    by (simp add: makeRequest_def makeRequest_begin_sent [OF u] makeRequest_settle_def
        makeRequest_catch_def Let_def bracketed_def)
  have r: "response exampleDraft = None"
    by (simp add: example_defs)
  have g: "bracketed (fst (snd (makeRequest_begin examplePlatform exampleDraft 0)) @ [PerformanceNow 20]) =
     [ConsoleLog (js ''Making request to:'') (LoggedString (js ''https://example.test/create'')),
      ConsoleLog (js ''Request options:'')
        (LoggedInit \<lparr>init_method = js ''POST'', init_headers = JObject [],
                      init_mode = js ''cors'', init_body = Some (requestBody exampleDraft)\<rparr>),
      Fetch (js ''https://example.test/create'')
        \<lparr>init_method = js ''POST'', init_headers = JObject [],
         init_mode = js ''cors'', init_body = Some (requestBody exampleDraft)\<rparr>]"
    unfolding b by (simp add: bracketed_def)
  show ?thesis using f r e g by simp
qed


text \<open>
  C3, amended. For a call with a URL that is not blank and two readings of a clock that
  does not run backwards (doubles that are not negative): when the transport fulfils
  and the body is read, the stored response holds \<open>Math.round\<close> of the double
  difference end minus start, which is the exact difference rounded to the nearest
  double; it is an integer that is not negative and at most half a millisecond away
  from that double difference; the end is the first effect after the transport has
  settled. When the transport rejects, the end is read in the same place, and the
  stored response is left as it was: no elapsed time is stored. In both cases the two
  timestamps bracket the two console lines and the call of the transport.
\<close>

theorem elapsed_time_stored_on_success:
  assumes "\<not> list_all isWhiteSpace (url c)"
    and "isDouble now0" and "isDouble now1" and "0 \<le> now0" and "now0 \<le> now1"
  shows "(readBody P res = (Inr d, effs) \<longrightarrow>
           (\<exists>c' u req r.
              makeRequest P c now0 (Inr res) now1 now2 =
                (c', [PerformanceNow now0,
                      ConsoleLog (js ''Making request to:'') (LoggedString u),
                      ConsoleLog (js ''Request options:'') (LoggedInit req),
                      Fetch u req,
                      PerformanceNow now1] @ effs
                     @ [Toast \<lparr>title = js ''Request Completed'',
                               description = js ''Response received in ''
                                             @ timingToString P (timing r) @ js ''ms'',
                               variant = None\<rparr>])
            \<and> response c' = Some r
            \<and> timing r = Math_round (Number_minus now1 now0)
            \<and> 0 \<le> timing r
            \<and> \<bar>real_of_int (timing r) - Number_minus now1 now0\<bar> \<le> 1 / 2
            \<and> \<bar>Number_minus now1 now0 - (now1 - now0)\<bar> \<le> ulp (now1 - now0) / 2
            \<and> bracketed (snd (makeRequest P c now0 (Inr res) now1 now2)) =
                [ConsoleLog (js ''Making request to:'') (LoggedString u),
                 ConsoleLog (js ''Request options:'') (LoggedInit req),
                 Fetch u req]))
       \<and> (\<exists>c' u req t.
              makeRequest P c now0 (Inl err) now1 now2 =
                (c', [PerformanceNow now0,
                      ConsoleLog (js ''Making request to:'') (LoggedString u),
                      ConsoleLog (js ''Request options:'') (LoggedInit req),
                      Fetch u req,
                      PerformanceNow now1,
                      ConsoleError (js ''Request failed:'') (LoggedThrown err),
                      Toast t])
            \<and> response c' = response c
            \<and> bracketed (snd (makeRequest P c now0 (Inl err) now1 now2)) =
                [ConsoleLog (js ''Making request to:'') (LoggedString u),
                 ConsoleLog (js ''Request options:'') (LoggedInit req),
                 Fetch u req])"
proof (intro conjI impI)
  assume r: "readBody P res = (Inr d, effs)"
  have t: "0 \<le> Math_round (Number_minus now1 now0)"
    using assms(5) by (simp add: Math_round_nonneg Number_minus_nonneg)
  have e: "\<bar>Number_minus now1 now0 - (now1 - now0)\<bar> \<le> ulp (now1 - now0) / 2"
    using roundToDouble_error [of "now1 - now0"] by (simp add: Number_minus_def)
  show "\<exists>c' u req r.
              makeRequest P c now0 (Inr res) now1 now2 =
                (c', [PerformanceNow now0,
                      ConsoleLog (js ''Making request to:'') (LoggedString u),
                      ConsoleLog (js ''Request options:'') (LoggedInit req),
                      Fetch u req,
                      PerformanceNow now1] @ effs
                     @ [Toast \<lparr>title = js ''Request Completed'',
                               description = js ''Response received in ''
                                             @ timingToString P (timing r) @ js ''ms'',
                               variant = None\<rparr>])
            \<and> response c' = Some r
            \<and> timing r = Math_round (Number_minus now1 now0)
            \<and> 0 \<le> timing r
            \<and> \<bar>real_of_int (timing r) - Number_minus now1 now0\<bar> \<le> 1 / 2
            \<and> \<bar>Number_minus now1 now0 - (now1 - now0)\<bar> \<le> ulp (now1 - now0) / 2
            \<and> bracketed (snd (makeRequest P c now0 (Inr res) now1 now2)) =
                [ConsoleLog (js ''Making request to:'') (LoggedString u),
                 ConsoleLog (js ''Request options:'') (LoggedInit req),
                 Fetch u req]"
    using t e Math_round_nearest [of "Number_minus now1 now0"]
    by (simp add: makeRequest_def makeRequest_begin_sent [OF assms(1)] makeRequest_settle_def r
        Let_def bracketed_def)
next
  show "\<exists>c' u req t.
              makeRequest P c now0 (Inl err) now1 now2 =
                (c', [PerformanceNow now0,
                      ConsoleLog (js ''Making request to:'') (LoggedString u),
                      ConsoleLog (js ''Request options:'') (LoggedInit req),
                      Fetch u req,
                      PerformanceNow now1,
                      ConsoleError (js ''Request failed:'') (LoggedThrown err),
                      Toast t])
            \<and> response c' = response c
            \<and> bracketed (snd (makeRequest P c now0 (Inl err) now1 now2)) =
                [ConsoleLog (js ''Making request to:'') (LoggedString u),
                 ConsoleLog (js ''Request options:'') (LoggedInit req),
                 Fetch u req]"
    by (simp add: makeRequest_def makeRequest_begin_sent [OF assms(1)] makeRequest_settle_def
        makeRequest_catch_def Let_def bracketed_def)
qed

text \<open>
  The witness reads the clock at the doubles nearest to 0.1 and to 0.6: the stored
  elapsed time is 1, as line 74 computes it with doubles.
\<close>

theorem elapsed_time_stored_on_success_witness:
  "\<not> list_all isWhiteSpace (url exampleDraft)
   \<and> isDouble (3602879701896397 / 2 ^ 55)
   \<and> isDouble (5404319552844595 / 2 ^ 53)
   \<and> (0 :: real) \<le> 3602879701896397 / 2 ^ 55
   \<and> (3602879701896397 / 2 ^ 55 :: real) \<le> 5404319552844595 / 2 ^ 53
   \<and> readBody examplePlatform exampleCreated = (Inr (JObject [(js ''a'', JNumber 1)]), [ResJson])
   \<and> (\<exists>r. response (fst (makeRequest examplePlatform exampleDraft (3602879701896397 / 2 ^ 55)
                              (Inr exampleCreated)
                              (5404319552844595 / 2 ^ 53) (5404319552844595 / 2 ^ 53))) = Some r
          \<and> timing r = 1)
   \<and> response (fst (makeRequest examplePlatform exampleDraft (3602879701896397 / 2 ^ 55)
                       (Inl (ErrorInstance (js ''Failed to fetch'')))
                       (5404319552844595 / 2 ^ 53) (5404319552844595 / 2 ^ 53))) = None"
proof -
  have u: "\<not> list_all isWhiteSpace (url exampleDraft)"
    by (simp add: example_defs)
  have z: "(0 :: real) \<le> 3602879701896397 / 2 ^ 55"
    by simp
  have le: "(3602879701896397 / 2 ^ 55 :: real) \<le> 5404319552844595 / 2 ^ 53"
    by simp
  have n: "response exampleDraft = None"
    by (simp add: example_defs)
  have rd: "Math_round (Number_minus (5404319552844595 / 2 ^ 53) (3602879701896397 / 2 ^ 55)) = 1"
    unfolding Number_minus_tie by (simp add: Math_round_def)
  note T = elapsed_time_stored_on_success [OF u isDouble_tenth isDouble_six_tenths z le,
        of examplePlatform exampleCreated
        "JObject [(js ''a'', JNumber 1)]" "[ResJson]" "5404319552844595 / 2 ^ 53"
        "ErrorInstance (js ''Failed to fetch'')"]
  have s: "\<exists>r. response (fst (makeRequest examplePlatform exampleDraft (3602879701896397 / 2 ^ 55)
                              (Inr exampleCreated)
                              (5404319552844595 / 2 ^ 53) (5404319552844595 / 2 ^ 53))) = Some r
          \<and> timing r = 1"
    using T readBody_exampleCreated rd by fastforce
  have f: "response (fst (makeRequest examplePlatform exampleDraft (3602879701896397 / 2 ^ 55)
                       (Inl (ErrorInstance (js ''Failed to fetch'')))
                       (5404319552844595 / 2 ^ 53) (5404319552844595 / 2 ^ 53))) = None"
    using T n by fastforce
  show ?thesis
    using u isDouble_tenth isDouble_six_tenths z le readBody_exampleCreated s f by blast
qed

subsection \<open>The display state over the lifetime of the component\<close>

lemma content_pending:
  assumes "loading c" and "error c = None"
  shows "content P c = [Progress]"
  using assms by (simp add: content_def truthy_opt_def split: option.splits)

lemma content_succeeded:
  assumes "\<not> loading c" and "error c = None" and "response c = Some r"
  shows "content P c =
           [ResponseTabs (formatJson P (data r))
              (formatJson P (JObject (map (\<lambda>(k, v). (k, JString v)) (responseHeaders r))))]"
  using assms by (simp add: content_def truthy_opt_def)

lemma content_single:
  assumes "\<not> (loading c \<and> error c \<noteq> None)"
  shows "\<exists>b. content P c = [b]"
  using assms
  by (cases "loading c"; cases "error c"; cases "response c")
     (simp_all add: content_def truthy_opt_def truthy_def)

lemma makeRequest_settle_state:
  "(\<exists>r. fst (makeRequest_settle P c startTime outcome now1 now2) = c\<lparr>response := Some r, loading := False\<rparr>)
   \<or> (\<exists>m. fst (makeRequest_settle P c startTime outcome now1 now2) = c\<lparr>error := Some m, loading := False\<rparr>)"
  by (auto simp add: makeRequest_settle_def makeRequest_catch_def Let_def
      split: sum.splits prod.splits)

lemma consistent_start: "consistent start"
  by (simp add: consistent_def start_def initial_def)

lemma consistent_step:
  assumes "consistent a"
  shows "consistent (step P a act)"
proof (cases act)
  case (Click now)
  show ?thesis
  proof (cases "loading (current a) \<or> \<not> truthy (trim (url (current a)))")
    case True
    then show ?thesis using assms Click by simp
  next
    case False
    then have "\<not> list_all isWhiteSpace (url (current a))"
      by (simp add: truthy_def trim_blank_iff)
    then show ?thesis using False Click
      by (simp add: makeRequest_begin_sent consistent_def)
  qed
next
  case (Settle outcome now1 now2)
  show ?thesis
  proof (cases "inflight a")
    case None
    then show ?thesis using assms Settle by simp
  next
    case (Some startTime)
    then have e: "error (current a) = None" using assms by (auto simp add: consistent_def)
    show ?thesis
      using makeRequest_settle_state [of P "current a" startTime outcome now1 now2] Some Settle e
      by (auto simp add: consistent_def)
  qed
qed (insert assms, auto simp add: consistent_def)

lemma consistent_foldl: "consistent a \<Longrightarrow> consistent (foldl (step P) a as)"
  by (induction as arbitrary: a) (simp_all add: consistent_step)

lemma consistent_run: "consistent (run P as)"
  by (simp add: run_def consistent_foldl consistent_start)


lemma exampleSession_run:
  "current (run examplePlatform exampleSession) =
     initial\<lparr>url := js ''https://example.test/create'',
             response := Some \<lparr>data = JObject [(js ''a'', JNumber 1)], status = 201,
                               statusText = js ''Created'',
                               responseHeaders = [(js ''content-type'', js ''application/json'')],
                               timing = 35\<rparr>,
             error := Some (js ''Load failed'')\<rparr>"
proof -
  let ?u = "js ''https://example.test/create''"
  have u: "\<not> list_all isWhiteSpace ?u" "truthy (trim ?u)"
    by (simp_all add: truthy_def trim_blank_iff) (simp_all add: js_def isWhiteSpace_def)
  have n: "\<not> includes_str (js ''Load failed'') (js ''CORS'')"
    "\<not> includes_str (js ''Load failed'') (js ''fetch'')"
    by (simp_all add: includes_str_def js_def sublist_Cons_right)
  have t: "Math_round (Number_minus 35 0) = 35"
    by (simp add: Number_minus_35 Math_round_def)
  have h: "fold (\<lambda>(key, value) acc. setProperty key value acc) (res_headers exampleCreated) []
             = [(js ''content-type'', js ''application/json'')]"
    by (simp add: exampleCreated_def setProperty_def isArrayIndex_def isDigit_def js_def)
  show ?thesis
    using u n t h
    by (simp add: run_def exampleSession_def start_def makeRequest_begin_sent
        makeRequest_settle_def makeRequest_catch_def readBody_exampleCreated Let_def)
       (simp add: initial_def exampleCreated_def)
qed


lemma settle_exampleCreated:
  "fst (makeRequest_settle examplePlatform (exampleDraft\<lparr>loading := True\<rparr>) 0
          (Inr exampleCreated) 35 35)
   = exampleDraft\<lparr>loading := True,
        response := Some \<lparr>data = JObject [(js ''a'', JNumber 1)], status = 201,
                          statusText = js ''Created'',
                          responseHeaders = [(js ''content-type'', js ''application/json'')],
                          timing = 35\<rparr>,
        loading := False\<rparr>"
proof -
  have t: "Math_round (Number_minus 35 0) = 35"
    by (simp add: Number_minus_35 Math_round_def)
  show ?thesis
    using t
    by (simp add: makeRequest_settle_def readBody_exampleCreated Let_def)
       (simp add: exampleCreated_def setProperty_def isArrayIndex_def isDigit_def js_def)
qed

text \<open>
  C1, as stated, fails: a stored response and a stored failure message are present
  together. In the example session a request succeeds and the next one fails; line 43
  clears the error on submission and nothing clears the response, so the state after
  the failure holds the response of the first request and the message of the second.
  The content shows the failure banner alone (line 326 hides the tabs), while the title
  still shows the icon of a success.
\<close>

theorem response_and_error_stored_together:
  "response (current (run examplePlatform exampleSession)) =
     Some \<lparr>data = JObject [(js ''a'', JNumber 1)], status = 201, statusText = js ''Created'',
           responseHeaders = [(js ''content-type'', js ''application/json'')], timing = 35\<rparr>
   \<and> error (current (run examplePlatform exampleSession)) = Some (js ''Load failed'')
   \<and> loading (current (run examplePlatform exampleSession)) = False
   \<and> titleIcon (current (run examplePlatform exampleSession)) = CheckCircle
   \<and> content examplePlatform (current (run examplePlatform exampleSession))
       = [FailureBanner (js ''Load failed'') False]"
proof -
  have n: "\<not> includes_str (js ''Load failed'') (js ''CORS'')"
    by (simp add: includes_str_def js_def sublist_Cons_right)
  have l: "js ''Load failed'' \<noteq> []"
    by (simp add: js_def)
  have c: "content examplePlatform (current (run examplePlatform exampleSession))
       = [FailureBanner (js ''Load failed'') (includes_str (js ''Load failed'') (js ''CORS''))]"
    by (rule content_failed) (simp_all add: exampleSession_run l, simp add: initial_def)
  show ?thesis
    using n c by (simp add: exampleSession_run titleIcon_def) (simp add: initial_def)
qed


text \<open>
  C1, amended. At every point of the lifetime \<open>loading\<close> holds exactly while a call is
  in flight, \<open>loading\<close> and a stored failure message are never present together, and
  the content of the response card is exactly one block. A submission with a URL that
  is not blank sets \<open>loading\<close>, clears the stored error and keeps the stored response:
  the content is the progress indicator. When the call then settles, \<open>loading\<close> is
  cleared and exactly one of two things is stored: a new response, the error staying
  absent, and the content is the two tabs; or a failure message, the stored response
  being kept as it was, and the content is the failure banner when the message is not
  empty.
\<close>

theorem display_state_transitions:
  "(loading (current (run P as)) = (inflight (run P as) \<noteq> None))
   \<and> \<not> (loading (current (run P as)) \<and> error (current (run P as)) \<noteq> None)
   \<and> (\<exists>b. content P (current (run P as)) = [b])
   \<and> (\<not> list_all isWhiteSpace (url c) \<longrightarrow>
         fst (makeRequest_begin P c now0) = c\<lparr>loading := True, error := None\<rparr>
       \<and> content P (fst (makeRequest_begin P c now0)) = [Progress])
   \<and> (loading c \<and> error c = None \<longrightarrow>
         (\<exists>r. fst (makeRequest_settle P c startTime outcome now1 now2)
                 = c\<lparr>response := Some r, loading := False\<rparr>
              \<and> content P (fst (makeRequest_settle P c startTime outcome now1 now2))
                 = [ResponseTabs (formatJson P (data r))
                      (formatJson P (JObject (map (\<lambda>(k, v). (k, JString v)) (responseHeaders r))))])
       \<or> (\<exists>m. fst (makeRequest_settle P c startTime outcome now1 now2)
                 = c\<lparr>error := Some m, loading := False\<rparr>
              \<and> (m \<noteq> [] \<longrightarrow>
                   content P (fst (makeRequest_settle P c startTime outcome now1 now2))
                   = [FailureBanner m (includes_str m (js ''CORS''))])))"
proof (intro conjI impI)
  show "loading (current (run P as)) = (inflight (run P as) \<noteq> None)"
    using consistent_run [of P as] by (simp add: consistent_def)
  show "\<not> (loading (current (run P as)) \<and> error (current (run P as)) \<noteq> None)"
    using consistent_run [of P as] by (auto simp add: consistent_def)
  then show "\<exists>b. content P (current (run P as)) = [b]"
    by (rule content_single)
next
  assume u: "\<not> list_all isWhiteSpace (url c)"
  show "fst (makeRequest_begin P c now0) = c\<lparr>loading := True, error := None\<rparr>"
    by (simp add: makeRequest_begin_sent [OF u])
  then show "content P (fst (makeRequest_begin P c now0)) = [Progress]"
    by (simp add: content_pending)
next
  assume p: "loading c \<and> error c = None"
  let ?c' = "fst (makeRequest_settle P c startTime outcome now1 now2)"
  from makeRequest_settle_state [of P c startTime outcome now1 now2]
  show "(\<exists>r. ?c' = c\<lparr>response := Some r, loading := False\<rparr>
              \<and> content P ?c'
                 = [ResponseTabs (formatJson P (data r))
                      (formatJson P (JObject (map (\<lambda>(k, v). (k, JString v)) (responseHeaders r))))])
       \<or> (\<exists>m. ?c' = c\<lparr>error := Some m, loading := False\<rparr>
              \<and> (m \<noteq> [] \<longrightarrow>
                   content P ?c' = [FailureBanner m (includes_str m (js ''CORS''))]))"
  proof
    assume "\<exists>r. ?c' = c\<lparr>response := Some r, loading := False\<rparr>"
    then obtain r where r: "?c' = c\<lparr>response := Some r, loading := False\<rparr>" by blast
    have "content P ?c' = [ResponseTabs (formatJson P (data r))
                      (formatJson P (JObject (map (\<lambda>(k, v). (k, JString v)) (responseHeaders r))))]"
      using p by (simp add: r content_succeeded)
    then show ?thesis using r by blast
  next
    assume "\<exists>m. ?c' = c\<lparr>error := Some m, loading := False\<rparr>"
    then obtain m where m: "?c' = c\<lparr>error := Some m, loading := False\<rparr>" by blast
    have "m \<noteq> [] \<longrightarrow> content P ?c' = [FailureBanner m (includes_str m (js ''CORS''))]"
      by (simp add: m content_failed)
    then show ?thesis using m by blast
  qed
qed

theorem display_state_transitions_witness:
  "\<not> (loading (current (run examplePlatform exampleSession))
        \<and> error (current (run examplePlatform exampleSession)) \<noteq> None)
   \<and> \<not> list_all isWhiteSpace (url exampleDraft)
   \<and> content examplePlatform (fst (makeRequest_begin examplePlatform exampleDraft 0)) = [Progress]
   \<and> loading (exampleDraft\<lparr>loading := True\<rparr>)
   \<and> error (exampleDraft\<lparr>loading := True\<rparr>) = None
   \<and> content examplePlatform
         (fst (makeRequest_settle examplePlatform (exampleDraft\<lparr>loading := True\<rparr>) 0
                 (Inr exampleCreated) 35 35))
       = [ResponseTabs (formatJson examplePlatform (JObject [(js ''a'', JNumber 1)]))
            (formatJson examplePlatform
               (JObject [(js ''content-type'', JString (js ''application/json''))]))]"
proof -
  have u: "\<not> list_all isWhiteSpace (url exampleDraft)"
    by (simp add: example_defs)
  have e: "error (exampleDraft\<lparr>loading := True\<rparr>) = None"
    by (simp add: example_defs)
  have l: "loading (exampleDraft\<lparr>loading := True\<rparr>)"
    by simp
  note B = display_state_transitions [of examplePlatform exampleSession exampleDraft 0
      0 "Inr exampleCreated" 35 35]
  note T = display_state_transitions [of examplePlatform exampleSession
      "exampleDraft\<lparr>loading := True\<rparr>" 0 0 "Inr exampleCreated" 35 35]
  have 1: "\<not> (loading (current (run examplePlatform exampleSession))
        \<and> error (current (run examplePlatform exampleSession)) \<noteq> None)"
    using T by blast
  have 2: "content examplePlatform (fst (makeRequest_begin examplePlatform exampleDraft 0)) = [Progress]"
    using B u by blast
  let ?c' = "fst (makeRequest_settle examplePlatform (exampleDraft\<lparr>loading := True\<rparr>) 0
                 (Inr exampleCreated) 35 35)"
  have n: "error ?c' = None"
    using e by (simp add: settle_exampleCreated)
  have d: "(\<exists>r. ?c' = exampleDraft\<lparr>loading := True, response := Some r, loading := False\<rparr>
              \<and> content examplePlatform ?c'
                 = [ResponseTabs (formatJson examplePlatform (data r))
                      (formatJson examplePlatform
                         (JObject (map (\<lambda>(k, v). (k, JString v)) (responseHeaders r))))])
       \<or> (\<exists>m. ?c' = exampleDraft\<lparr>loading := True, error := Some m, loading := False\<rparr>
              \<and> (m \<noteq> [] \<longrightarrow>
                   content examplePlatform ?c' = [FailureBanner m (includes_str m (js ''CORS''))]))"
    using T l e by blast
  then have 3: "content examplePlatform ?c'
       = [ResponseTabs (formatJson examplePlatform (JObject [(js ''a'', JNumber 1)]))
            (formatJson examplePlatform
               (JObject [(js ''content-type'', JString (js ''application/json''))]))]"
  proof
    assume "\<exists>r. ?c' = exampleDraft\<lparr>loading := True, response := Some r, loading := False\<rparr>
              \<and> content examplePlatform ?c'
                 = [ResponseTabs (formatJson examplePlatform (data r))
                      (formatJson examplePlatform
                         (JObject (map (\<lambda>(k, v). (k, JString v)) (responseHeaders r))))]"
    then obtain r where
      r: "?c' = exampleDraft\<lparr>loading := True, response := Some r, loading := False\<rparr>"
      and c: "content examplePlatform ?c'
                 = [ResponseTabs (formatJson examplePlatform (data r))
                      (formatJson examplePlatform
                         (JObject (map (\<lambda>(k, v). (k, JString v)) (responseHeaders r))))]"
      by blast
    have "response ?c' = Some r" by (simp add: r)
    then have "r = \<lparr>data = JObject [(js ''a'', JNumber 1)], status = 201,
                          statusText = js ''Created'',
                          responseHeaders = [(js ''content-type'', js ''application/json'')],
                          timing = 35\<rparr>"
      by (simp add: settle_exampleCreated)
    then show ?thesis using c by simp
  next
    assume "\<exists>m. ?c' = exampleDraft\<lparr>loading := True, error := Some m, loading := False\<rparr>
              \<and> (m \<noteq> [] \<longrightarrow>
                   content examplePlatform ?c' = [FailureBanner m (includes_str m (js ''CORS''))])"
    then obtain m where "?c' = exampleDraft\<lparr>loading := True, error := Some m, loading := False\<rparr>"
      by blast
    then have "error ?c' = Some m" by simp
    then show ?thesis using n by simp
  qed
  show ?thesis
    using 1 2 3 u l e by blast
qed

end
